theory Spec2Isabelle
  imports Complex_Main
begin

section \<open>JavaScript values and built-ins\<close>

text \<open>
  The two route files (\<^verbatim>\<open>api-admin-dashboard.ts\<close>) and the card component
  (\<^verbatim>\<open>ChallengeCard.tsx\<close>) are embedded as HOL functions. Collaborators that are
  imported from elsewhere (the user store, the database, the identity and token
  services, the staking hook, the fetch layer, the currency and date helpers) are
  parameters, collected in environment records. An awaited call either returns or
  throws; a thrown value is either an object, whose \<^verbatim>\<open>message\<close> property may be
  missing, or \<^verbatim>\<open>null\<close>/\<^verbatim>\<open>undefined\<close>. Console logging is not modelled.
\<close>

datatype thrown = Thrown "string option" | ThrownNullish

datatype 'a js_result = Threw thrown | Returned 'a

text \<open>Truthiness of an optional string, an optional boolean: \<^verbatim>\<open>!!v\<close>.\<close>

definition truthy_str :: "string option \<Rightarrow> bool" where
  "truthy_str v = (case v of None \<Rightarrow> False | Some s \<Rightarrow> s \<noteq> [])"

definition truthy_bool :: "bool option \<Rightarrow> bool" where
  "truthy_bool v = (case v of None \<Rightarrow> False | Some b \<Rightarrow> b)"

text \<open>
  A number is a double: \<^verbatim>\<open>NaN\<close>, one of the two infinities, or a finite value,
  given as the rational it stands for (negative zero is identified with zero, which
  JSON prints alike). Arithmetic and \<^verbatim>\<open>parseFloat\<close> compute the exact result and
  round it as IEEE 754 binary64 does: to the nearest double, to the one with the even
  significand on a tie, and to an infinity from \<open>2^1024 - 2^970\<close> on.
\<close>

datatype jsnum = NaN | PInf | NInf | Fin rat

fun js_neg :: "jsnum \<Rightarrow> jsnum" where
  "js_neg NaN = NaN"
| "js_neg PInf = NInf"
| "js_neg NInf = PInf"
| "js_neg (Fin a) = Fin (- a)"

definition pow2 :: "int \<Rightarrow> rat" where
  "pow2 e = (if 0 \<le> e then 2 ^ nat e else 1 / 2 ^ nat (- e))"

text \<open>
  The binary exponent of a positive value, between -1022 (also for the subnormal
  values below \<open>2^-1022\<close>) and 1023: the value is halved, or doubled, until it lies in
  \<open>[1, 2)\<close> or the exponent reaches its bound.
\<close>

function exp_up :: "rat \<Rightarrow> int \<Rightarrow> rat \<times> int" where
  "exp_up a e = (if 2 \<le> a \<and> e < 1023 then exp_up (a / 2) (e + 1) else (a, e))"
  by pat_completeness auto
termination
  by (relation "measure (\<lambda>(a, e). nat (1023 - e))") auto

function exp_down :: "rat \<Rightarrow> int \<Rightarrow> rat \<times> int" where
  "exp_down a e = (if a < 1 \<and> - 1022 < e then exp_down (a * 2) (e - 1) else (a, e))"
  by pat_completeness auto
termination
  by (relation "measure (\<lambda>(a, e). nat (e + 1022))") auto

declare exp_up.simps [simp del] exp_down.simps [simp del]

text \<open>The nearest integer of a value that is not negative, the even one on a tie.\<close>

definition round_half_even :: "rat \<Rightarrow> int" where
  "round_half_even m =
     (let f = \<lfloor>m\<rfloor>; d = m - of_int f
      in if d < 1 / 2 then f else if 1 / 2 < d then f + 1 else if even f then f else f + 1)"

text \<open>
  The double of a positive value: with the value scaled to \<open>s * 2^e\<close>, the
  significand \<open>s * 2^52\<close> is rounded to an integer (53 bits for a normal value,
  fewer for a subnormal one), and a result of \<open>2^1024\<close> or more is an infinity.
\<close>

definition round_pos :: "rat \<Rightarrow> jsnum" where
  "round_pos a =
     (case (if 1 \<le> a then exp_up a 0 else exp_down a 0) of
        (s, e) \<Rightarrow>
          (let r = of_int (round_half_even (s * 2 ^ 52)) * pow2 (e - 52)
           in if pow2 1024 \<le> r then PInf else Fin r))"

definition round_double :: "rat \<Rightarrow> jsnum" where
  "round_double q =
     (if q = 0 then Fin 0 else if 0 < q then round_pos q else js_neg (round_pos (- q)))"

fun js_add :: "jsnum \<Rightarrow> jsnum \<Rightarrow> jsnum" where
  "js_add NaN y = NaN"
| "js_add x NaN = NaN"
| "js_add PInf NInf = NaN"
| "js_add NInf PInf = NaN"
| "js_add PInf y = PInf"
| "js_add x PInf = PInf"
| "js_add NInf y = NInf"
| "js_add x NInf = NInf"
| "js_add (Fin a) (Fin b) = round_double (a + b)"

fun js_mul :: "jsnum \<Rightarrow> jsnum \<Rightarrow> jsnum" where
  "js_mul NaN y = NaN"
| "js_mul x NaN = NaN"
| "js_mul (Fin a) (Fin b) = round_double (a * b)"
| "js_mul (Fin a) PInf = (if a = 0 then NaN else if 0 < a then PInf else NInf)"
| "js_mul (Fin a) NInf = (if a = 0 then NaN else if 0 < a then NInf else PInf)"
| "js_mul PInf (Fin b) = (if b = 0 then NaN else if 0 < b then PInf else NInf)"
| "js_mul NInf (Fin b) = (if b = 0 then NaN else if 0 < b then NInf else PInf)"
| "js_mul PInf PInf = PInf"
| "js_mul NInf NInf = PInf"
| "js_mul PInf NInf = NInf"
| "js_mul NInf PInf = NInf"

text \<open>\<^verbatim>\<open>x > 0\<close> on numbers: false for \<^verbatim>\<open>NaN\<close>.\<close>

fun js_pos :: "jsnum \<Rightarrow> bool" where
  "js_pos NaN = False"
| "js_pos PInf = True"
| "js_pos NInf = False"
| "js_pos (Fin a) = (0 < a)"

fun truthy_jsnum :: "jsnum \<Rightarrow> bool" where
  "truthy_jsnum NaN = False"
| "truthy_jsnum PInf = True"
| "truthy_jsnum NInf = True"
| "truthy_jsnum (Fin a) = (a \<noteq> 0)"

definition truthy_num :: "jsnum option \<Rightarrow> bool" where
  "truthy_num v = (case v of None \<Rightarrow> False | Some x \<Rightarrow> truthy_jsnum x)"

text \<open>\<^verbatim>\<open>v || 0\<close> on an optional number, \<^verbatim>\<open>x || 0\<close> on a number.\<close>

definition or_zero :: "jsnum \<Rightarrow> jsnum" where
  "or_zero x = (if truthy_jsnum x then x else Fin 0)"

definition opt_or_zero :: "jsnum option \<Rightarrow> jsnum" where
  "opt_or_zero v = (case v of None \<Rightarrow> Fin 0 | Some x \<Rightarrow> or_zero x)"

subsection \<open>Strings\<close>

text \<open>\<^verbatim>\<open>s.startsWith(p)\<close>.\<close>

fun startsWith :: "string \<Rightarrow> string \<Rightarrow> bool" where
  "startsWith s [] = True"
| "startsWith [] (p # ps) = False"
| "startsWith (c # cs) (p # ps) = (c = p \<and> startsWith cs ps)"

text \<open>
  \<^verbatim>\<open>s.replace(pat, rep)\<close> with a string pattern: the first occurrence of the
  pattern, wherever it stands, is replaced (here the replacement holds no \<^verbatim>\<open>$\<close>).
\<close>

fun replace_first :: "string \<Rightarrow> string \<Rightarrow> string \<Rightarrow> string" where
  "replace_first pat rep [] = (if pat = [] then rep else [])"
| "replace_first pat rep (c # cs) =
     (if startsWith (c # cs) pat then rep @ drop (length pat) (c # cs)
      else c # replace_first pat rep cs)"

text \<open>\<^verbatim>\<open>s.includes(pat)\<close>: the pattern occurs somewhere in the string.\<close>

fun includes_str :: "string \<Rightarrow> string \<Rightarrow> bool" where
  "includes_str [] pat = (pat = [])"
| "includes_str (c # cs) pat = (startsWith (c # cs) pat \<or> includes_str cs pat)"

text \<open>\<^verbatim>\<open>s.split(sep)\<close> for a one-character separator, and \<^verbatim>\<open>parts.join(sep)\<close>.\<close>

fun split_chr :: "char \<Rightarrow> string \<Rightarrow> string list" where
  "split_chr sep [] = [[]]"
| "split_chr sep (c # cs) =
     (if c = sep then [] # split_chr sep cs
      else (case split_chr sep cs of
              [] \<Rightarrow> [[c]]
            | p # ps \<Rightarrow> (c # p) # ps))"

fun join :: "string \<Rightarrow> string list \<Rightarrow> string" where
  "join sep [] = []"
| "join sep [p] = p"
| "join sep (p # q # ps) = p @ sep @ join sep (q # ps)"

text \<open>
  \<^verbatim>\<open>xs.slice(start, stop)\<close>: a negative index counts from the end, both ends are
  clamped to the array, and an empty range gives the empty array.
\<close>

definition slice :: "int \<Rightarrow> int \<Rightarrow> 'a list \<Rightarrow> 'a list" where
  "slice start stop xs =
     (let n = int (length xs);
          k = (if start < 0 then max (n + start) 0 else min start n);
          fin = (if stop < 0 then max (n + stop) 0 else min stop n)
      in take (nat (fin - k)) (drop (nat k) xs))"

text \<open>Template literals: \<^verbatim>\<open>`${v}`\<close> of an optional string.\<close>

definition str_of_opt :: "string option \<Rightarrow> string" where
  "str_of_opt v = (case v of None \<Rightarrow> ''undefined'' | Some s \<Rightarrow> s)"

subsection \<open>Reading and printing numbers\<close>

text \<open>
  Strings are byte strings, so the white space that the parsers skip is the ASCII part
  of JavaScript's: tab, line feed, vertical tab, form feed, carriage return, space.
\<close>

definition is_ws :: "char \<Rightarrow> bool" where
  "is_ws c = (c = CHR 0x09 \<or> c = CHR 0x0A \<or> c = CHR 0x0B \<or> c = CHR 0x0C
      \<or> c = CHR 0x0D \<or> c = CHR '' '')"

fun index_of :: "char \<Rightarrow> string \<Rightarrow> nat option" where
  "index_of c [] = None"
| "index_of c (d # ds) = (if c = d then Some 0 else map_option Suc (index_of c ds))"

text \<open>The value of a digit, up to radix 16, in either case of the letters.\<close>

definition digit_of :: "char \<Rightarrow> nat option" where
  "digit_of c =
     (case index_of c ''0123456789abcdef'' of
        Some d \<Rightarrow> Some d
      | None \<Rightarrow> map_option (\<lambda>k. k + 10) (index_of c ''ABCDEF''))"

text \<open>The longest prefix of digits of the given radix, and what follows it.\<close>

fun take_digits :: "nat \<Rightarrow> string \<Rightarrow> nat list \<times> string" where
  "take_digits b [] = ([], [])"
| "take_digits b (c # cs) =
     (case digit_of c of
        None \<Rightarrow> ([], c # cs)
      | Some d \<Rightarrow>
          if d < b then (case take_digits b cs of (ds, r) \<Rightarrow> (d # ds, r))
          else ([], c # cs))"

definition digits_val :: "nat \<Rightarrow> nat list \<Rightarrow> nat" where
  "digits_val b ds = foldl (\<lambda>a d. a * b + d) 0 ds"

text \<open>An optional sign: the factor and the rest.\<close>

fun take_sign :: "string \<Rightarrow> int \<times> string" where
  "take_sign [] = (1, [])"
| "take_sign (c # cs) =
     (if c = CHR ''-'' then (- 1, cs)
      else if c = CHR ''+'' then (1, cs)
      else (1, c # cs))"

text \<open>
  \<^verbatim>\<open>parseInt(s)\<close> with no radix: leading white space, a sign, an optional
  \<^verbatim>\<open>0x\<close> (then radix 16), the longest run of digits; \<^verbatim>\<open>NaN\<close> (here
  \<open>None\<close>) when there is no digit. An absent argument reads as the text
  \<^verbatim>\<open>undefined\<close>, which has no digit.
\<close>

definition parseInt :: "string option \<Rightarrow> int option" where
  "parseInt v =
     (case v of
        None \<Rightarrow> None
      | Some s \<Rightarrow>
          (case take_sign (dropWhile is_ws s) of
             (sg, r) \<Rightarrow>
               (let hex = startsWith r ''0x'' \<or> startsWith r ''0X'';
                    b = (if hex then 16 else 10);
                    r' = (if hex then drop 2 r else r)
                in case take_digits b r' of
                     ([], _) \<Rightarrow> None
                   | (d # ds, _) \<Rightarrow> Some (sg * int (digits_val b (d # ds))))))"

text \<open>\<^verbatim>\<open>parseInt(s) || d\<close>: the default replaces \<^verbatim>\<open>NaN\<close> and also 0.\<close>

definition int_or :: "int option \<Rightarrow> int \<Rightarrow> int" where
  "int_or v d = (case v of None \<Rightarrow> d | Some n \<Rightarrow> if n = 0 then d else n)"

text \<open>
  \<^verbatim>\<open>parseFloat(s)\<close>: leading white space, then the longest prefix that is a
  decimal literal: a sign, then \<^verbatim>\<open>Infinity\<close>, or digits with an optional
  fraction, or a fraction alone, and an exponent if it is complete. The result is the
  double nearest to the value of that literal.
\<close>

definition take_exponent :: "string \<Rightarrow> int" where
  "take_exponent r =
     (case r of
        [] \<Rightarrow> 0
      | c # cs \<Rightarrow>
          if c = CHR ''e'' \<or> c = CHR ''E'' then
            (case take_sign cs of
               (sg, r') \<Rightarrow>
                 (case take_digits 10 r' of
                    ([], _) \<Rightarrow> 0
                  | (d # ds, _) \<Rightarrow> sg * int (digits_val 10 (d # ds))))
          else 0)"

definition scale10 :: "rat \<Rightarrow> int \<Rightarrow> rat" where
  "scale10 m e = (if 0 \<le> e then m * 10 ^ nat e else m / 10 ^ nat (- e))"

definition parseFloat :: "string \<Rightarrow> jsnum" where
  "parseFloat s =
     (case take_sign (dropWhile is_ws s) of
        (sg, r) \<Rightarrow>
          if startsWith r ''Infinity'' then (if sg < 0 then NInf else PInf)
          else
            (case take_digits 10 r of
               (ip, r1) \<Rightarrow>
                 (case (case r1 of
                          [] \<Rightarrow> ([], r1)
                        | c # cs \<Rightarrow>
                            if c = CHR ''.'' then
                              (case take_digits 10 cs of
                                 (fp, r2) \<Rightarrow>
                                   if ip = [] \<and> fp = [] then ([], r1) else (fp, r2))
                            else ([], r1)) of
                    (fp, r2) \<Rightarrow>
                      if ip = [] \<and> fp = [] then NaN
                      else round_double (scale10
                             (of_int sg * of_nat (digits_val 10 (ip @ fp)))
                             (take_exponent r2 - int (length fp))))))"

text \<open>
  \<^verbatim>\<open>BigInt(s)\<close> of a string: white space is trimmed at both ends, the empty
  text is 0, a decimal integer may carry a sign, and \<^verbatim>\<open>0x\<close>, \<^verbatim>\<open>0o\<close>,
  \<^verbatim>\<open>0b\<close> introduce the other radices. Anything else throws a SyntaxError
  (\<open>None\<close>).
\<close>

definition all_digits :: "nat \<Rightarrow> string \<Rightarrow> int option" where
  "all_digits b r =
     (case take_digits b r of
        (d # ds, []) \<Rightarrow> Some (int (digits_val b (d # ds)))
      | _ \<Rightarrow> None)"

definition BigInt :: "string \<Rightarrow> int option" where
  "BigInt s =
     (let t = rev (dropWhile is_ws (rev (dropWhile is_ws s))) in
      if t = [] then Some 0
      else if startsWith t ''0x'' \<or> startsWith t ''0X'' then all_digits 16 (drop 2 t)
      else if startsWith t ''0o'' \<or> startsWith t ''0O'' then all_digits 8 (drop 2 t)
      else if startsWith t ''0b'' \<or> startsWith t ''0B'' then all_digits 2 (drop 2 t)
      else (case take_sign t of
              (sg, r) \<Rightarrow> map_option (\<lambda>n. sg * n) (all_digits 10 r)))"

text \<open>Division of BigInts truncates towards zero.\<close>

definition bigint_div :: "int \<Rightarrow> int \<Rightarrow> int" where
  "bigint_div a b = sgn a * sgn b * (\<bar>a\<bar> div \<bar>b\<bar>)"

text \<open>The decimal text of an integer, as a template literal prints it.\<close>

definition digit_char :: "nat \<Rightarrow> char" where
  "digit_char d = ''0123456789'' ! (d mod 10)"

function string_of_nat :: "nat \<Rightarrow> string" where
  "string_of_nat n =
     (if n < 10 then [digit_char n]
      else string_of_nat (n div 10) @ [digit_char (n mod 10)])"
  by pat_completeness auto
termination
  by (relation "measure (\<lambda>n. n)") auto

declare string_of_nat.simps [simp del]

definition string_of_int :: "int \<Rightarrow> string" where
  "string_of_int i =
     (if i < 0 then CHR ''-'' # string_of_nat (nat (- i)) else string_of_nat (nat i))"

text \<open>\<^verbatim>\<open>v || d\<close> on an optional string.\<close>

definition str_or :: "string option \<Rightarrow> string \<Rightarrow> string" where
  "str_or v d = (case v of None \<Rightarrow> d | Some s \<Rightarrow> if s = [] then d else s)"

text \<open>\<^verbatim>\<open>v || null\<close> on an optional string: the empty text becomes \<^verbatim>\<open>null\<close> too.\<close>

definition str_or_null :: "string option \<Rightarrow> string option" where
  "str_or_null v = (if truthy_str v then v else None)"

section \<open>The admin dashboard API\<close>

text \<open>
  The schema of the user store and of the \<^verbatim>\<open>challenges\<close> table is not part of
  these sources (the rows are typed \<^verbatim>\<open>any\<close>). The records hold the fields the
  handlers read: a text or decimal column is an optional string, a timestamp column an
  optional instant in milliseconds (a \<^verbatim>\<open>Date\<close>, or \<^verbatim>\<open>null\<close>), a flag an
  optional boolean, a counter an optional integer.
\<close>

record user =
  u_id :: string
  u_username :: "string option"
  u_firstName :: "string option"
  u_lastName :: "string option"
  u_email :: "string option"
  u_level :: "int option"
  u_points :: "int option"
  u_balance :: "string option"
  u_createdAt :: "int option"
  u_lastLogin :: "int option"
  u_status :: "string option"
  u_isActive :: "bool option"
  u_isAdmin :: "bool option"

record challenge_row =
  r_id :: int
  r_title :: "string option"
  r_description :: "string option"
  r_category :: "string option"
  r_status :: "string option"
  r_amount :: "string option"
  r_result :: "string option"
  r_evidence :: "string option"
  r_dueDate :: "int option"
  r_createdAt :: "int option"
  r_completedAt :: "int option"
  r_isPinned :: "bool option"
  r_challengerId :: "string option"
  r_challengedId :: "string option"
  r_challengerUsername :: "string option"
  r_challengedUsername :: "string option"
  r_adminCreated :: "bool option"
  r_bonusSide :: "string option"
  r_bonusMultiplier :: "string option"
  r_bonusEndsAt :: "int option"
  r_yesStakeTotal :: "int option"
  r_noStakeTotal :: "int option"
  r_paymentTokenAddress :: "string option"

text \<open>The JSON answers.\<close>

record adminStats =
  totalUsers :: nat
  activeUsers :: nat
  newUsersThisWeek :: nat
  dailyActiveUsers :: nat
  totalEvents :: nat
  activeEvents :: nat
  completedEvents :: nat
  totalChallenges :: nat
  activeChallenges :: nat
  completedChallenges :: nat
  pendingChallenges :: nat
  totalTransactions :: nat
  totalVolume :: jsnum
  totalEventPool :: nat
  totalChallengeStaked :: jsnum
  totalRevenue :: nat
  totalCreatorFees :: nat
  totalPlatformFees :: nat
  totalDeposits :: nat
  totalWithdrawals :: nat
  pendingPayouts :: nat

record adminUserView =
  uv_id :: string
  uv_username :: "string option"
  uv_firstName :: string
  uv_lastName :: string
  uv_email :: "string option"
  uv_level :: int
  uv_points :: int
  uv_balance :: string
  uv_streak :: "int option"
  uv_createdAt :: "int option"
  uv_lastLogin :: "int option"
  uv_status :: string
  uv_isAdmin :: bool

datatype date_view = DateObj int | IsoText string

record view_user =
  vu_id :: string
  vu_username :: string
  vu_firstName :: string
  vu_lastName :: string
  vu_profileImageUrl :: string

record adminChallengeView =
  cv_id :: int
  cv_title :: string
  cv_description :: string
  cv_category :: string
  cv_status :: string
  cv_amount :: string
  cv_result :: "string option"
  cv_evidence :: "string option"
  cv_dueDate :: date_view
  cv_createdAt :: date_view
  cv_completedAt :: "int option"
  cv_isPinned :: bool
  cv_challenger :: string
  cv_challenged :: string
  cv_challengerUser :: view_user
  cv_challengedUser :: view_user
  cv_adminCreated :: bool
  cv_bonusSide :: "string option"
  cv_bonusMultiplier :: "string option"
  cv_bonusEndsAt :: "int option"
  cv_yesStakeTotal :: int
  cv_noStakeTotal :: int
  cv_paymentTokenAddress :: "string option"
  cv_type :: string

datatype body =
    ErrorBody "string option"
  | StatsBody adminStats
  | UsersBody "adminUserView list"
  | UserBody adminUserView
  | ChallengesBody "adminChallengeView list"
  | ActionBody bool string
  | LoginBody bool string string "string option" "string option"

record action_body =
  ab_action :: "string option"
  ab_value :: "string option"
  ab_reason :: "string option"

record request =
  authorization :: "string option"
  query_limit :: "string option"
  query_offset :: "string option"
  params_userId :: string
  req_body :: "action_body option"
  req_user :: "user option"

text \<open>
  What a middleware or handler does with a request: it answers with a status and a
  body, or it calls \<^verbatim>\<open>next()\<close> on the request it may have changed, or an
  exception leaves it.
\<close>

datatype outcome = Responded nat body | Proceeded request | Uncaught

text \<open>
  The collaborators of the admin router: the user store, the query
  \<^verbatim>\<open>db.select().from(challenges)\<close>, and the clock (the instant that
  \<^verbatim>\<open>setDate(getDate() - 7)\<close> yields, and \<^verbatim>\<open>new Date().toISOString()\<close>).
\<close>

record server_env =
  getUser :: "string \<Rightarrow> user option js_result"
  getAllUsersWithWallets :: "user list js_result"
  selectChallenges :: "challenge_row list js_result"
  oneWeekAgo :: int
  nowIso :: string

subsection \<open>adminAuth\<close>

definition adminAuth :: "server_env \<Rightarrow> request \<Rightarrow> outcome" where
  "adminAuth env req =
     (case map_option (replace_first ''Bearer '' []) (authorization req) of
        None \<Rightarrow> Responded 401 (ErrorBody (Some ''Unauthorized''))
      | Some token \<Rightarrow>
          if token = [] \<or> \<not> startsWith token ''admin_''
          then Responded 401 (ErrorBody (Some ''Unauthorized''))
          else
            (let parts = split_chr CHR ''_'' token in
             if length parts < 3
             then Responded 401 (ErrorBody (Some ''Invalid token format''))
             else
               (let userId = join ''_'' (slice 1 (- 1) parts) in
                case getUser env userId of
                  Threw e \<Rightarrow> Responded 401 (ErrorBody (Some ''Unauthorized''))
                | Returned None \<Rightarrow> Responded 403 (ErrorBody (Some ''Admin access required''))
                | Returned (Some u) \<Rightarrow>
                    if \<not> truthy_bool (u_isAdmin u)
                    then Responded 403 (ErrorBody (Some ''Admin access required''))
                    else Proceeded (req\<lparr>req_user := Some u\<rparr>))))"

text \<open>
  What a client and the next handler see of an outcome: the answer, or the user that
  was attached before control was passed on.
\<close>

datatype observation = Answer nat body | Passed "user option"

fun observe :: "outcome \<Rightarrow> observation option" where
  "observe (Responded st b) = Some (Answer st b)"
| "observe (Proceeded r) = Some (Passed (req_user r))"
| "observe Uncaught = None"

subsection \<open>GET /stats\<close>

text \<open>
  The \<^verbatim>\<open>forEach\<close> over the challenges, with its two accumulators
  \<open>(totalVolume, totalChallengeStaked)\<close>.
\<close>

fun stake_loop :: "challenge_row list \<Rightarrow> jsnum \<times> jsnum \<Rightarrow> jsnum \<times> jsnum" where
  "stake_loop [] acc = acc"
| "stake_loop (c # cs) (vol, staked) =
     (case r_amount c of
        None \<Rightarrow> stake_loop cs (vol, staked)
      | Some a \<Rightarrow>
          if a = [] then stake_loop cs (vol, staked)
          else (let amount = parseFloat a
                in stake_loop cs (js_add vol amount, js_add staked amount)))"

text \<open>\<^verbatim>\<open>new Date(u.createdAt)\<close>: a missing timestamp (\<^verbatim>\<open>null\<close>) is the epoch.\<close>

definition created_ms :: "user \<Rightarrow> int" where
  "created_ms u = (case u_createdAt u of None \<Rightarrow> 0 | Some t \<Rightarrow> t)"

definition stats_of :: "server_env \<Rightarrow> user list \<Rightarrow> challenge_row list \<Rightarrow> adminStats" where
  "stats_of env allUsers allChallenges =
     (let active = length (filter (\<lambda>u. u_status u = Some ''active'' \<or> truthy_bool (u_isActive u)) allUsers);
          totals = stake_loop allChallenges (Fin 0, Fin 0)
      in \<lparr> totalUsers = length allUsers,
           activeUsers = active,
           newUsersThisWeek = length (filter (\<lambda>u. oneWeekAgo env \<le> created_ms u) allUsers),
           dailyActiveUsers = active,
           totalEvents = 0,
           activeEvents = 0,
           completedEvents = 0,
           totalChallenges = length allChallenges,
           activeChallenges = length (filter (\<lambda>c. r_status c = Some ''active'') allChallenges),
           completedChallenges = length (filter (\<lambda>c. r_status c = Some ''completed'') allChallenges),
           pendingChallenges =
             length (filter (\<lambda>c. r_status c = Some ''pending'' \<or> r_status c = Some ''accepted'') allChallenges),
           totalTransactions = 0,
           totalVolume = fst totals,
           totalEventPool = 0,
           totalChallengeStaked = snd totals,
           totalRevenue = 0,
           totalCreatorFees = 0,
           totalPlatformFees = 0,
           totalDeposits = 0,
           totalWithdrawals = 0,
           pendingPayouts = 0 \<rparr>)"

definition stats_handler :: "server_env \<Rightarrow> request \<Rightarrow> outcome" where
  "stats_handler env req =
     (case getAllUsersWithWallets env of
        Threw e \<Rightarrow> Responded 500 (ErrorBody (Some ''Failed to fetch stats''))
      | Returned allUsers \<Rightarrow>
          (case selectChallenges env of
             Threw e \<Rightarrow> Responded 500 (ErrorBody (Some ''Failed to fetch stats''))
           | Returned allChallenges \<Rightarrow>
               Responded 200 (StatsBody (stats_of env allUsers allChallenges))))"

subsection \<open>GET /users, GET /users/:userId\<close>

definition int_or_zero :: "int option \<Rightarrow> int" where
  "int_or_zero v = (case v of None \<Rightarrow> 0 | Some n \<Rightarrow> n)"

definition user_view :: "int option \<Rightarrow> user \<Rightarrow> adminUserView" where
  "user_view streak u =
     \<lparr> uv_id = u_id u,
       uv_username = u_username u,
       uv_firstName = str_or (u_firstName u) [],
       uv_lastName = str_or (u_lastName u) [],
       uv_email = u_email u,
       uv_level = int_or_zero (u_level u),
       uv_points = int_or_zero (u_points u),
       uv_balance = str_or (u_balance u) ''0'',
       uv_streak = streak,
       uv_createdAt = u_createdAt u,
       uv_lastLogin = (case u_lastLogin u of None \<Rightarrow> u_createdAt u | Some t \<Rightarrow> Some t),
       uv_status = (if truthy_bool (u_isActive u) then ''active'' else ''inactive''),
       uv_isAdmin = truthy_bool (u_isAdmin u) \<rparr>"

definition users_handler :: "server_env \<Rightarrow> request \<Rightarrow> outcome" where
  "users_handler env req =
     (let limit = int_or (parseInt (query_limit req)) 100;
          offset = int_or (parseInt (query_offset req)) 0
      in case getAllUsersWithWallets env of
           Threw e \<Rightarrow> Responded 500 (ErrorBody (Some ''Failed to fetch users''))
         | Returned allUsers \<Rightarrow>
             Responded 200
               (UsersBody (map (user_view (Some 0)) (slice offset (offset + limit) allUsers))))"

definition user_handler :: "server_env \<Rightarrow> request \<Rightarrow> outcome" where
  "user_handler env req =
     (case getUser env (params_userId req) of
        Threw e \<Rightarrow> Responded 500 (ErrorBody (Some ''Failed to fetch user''))
      | Returned None \<Rightarrow> Responded 404 (ErrorBody (Some ''User not found''))
      | Returned (Some u) \<Rightarrow> Responded 200 (UserBody (user_view None u)))"

subsection \<open>GET /challenges\<close>

definition date_or_now :: "server_env \<Rightarrow> int option \<Rightarrow> date_view" where
  "date_or_now env v = (case v of None \<Rightarrow> IsoText (nowIso env) | Some t \<Rightarrow> DateObj t)"

definition challenge_view :: "server_env \<Rightarrow> challenge_row \<Rightarrow> adminChallengeView" where
  "challenge_view env c =
     \<lparr> cv_id = r_id c,
       cv_title = str_or (r_title c) (''Challenge #'' @ string_of_int (r_id c)),
       cv_description = str_or (r_description c) [],
       cv_category = str_or (r_category c) ''General'',
       cv_status = str_or (r_status c) ''pending'',
       cv_amount = str_or (r_amount c) ''0'',
       cv_result = str_or_null (r_result c),
       cv_evidence = str_or_null (r_evidence c),
       cv_dueDate = date_or_now env (r_dueDate c),
       cv_createdAt = date_or_now env (r_createdAt c),
       cv_completedAt = r_completedAt c,
       cv_isPinned = truthy_bool (r_isPinned c),
       cv_challenger = str_or (r_challengerId c) [],
       cv_challenged = str_or (r_challengedId c) [],
       cv_challengerUser =
         \<lparr> vu_id = str_or (r_challengerId c) [],
           vu_username = str_or (r_challengerUsername c) ''Unknown'',
           vu_firstName = [], vu_lastName = [], vu_profileImageUrl = [] \<rparr>,
       cv_challengedUser =
         \<lparr> vu_id = str_or (r_challengedId c) [],
           vu_username = str_or (r_challengedUsername c) ''Unknown'',
           vu_firstName = [], vu_lastName = [], vu_profileImageUrl = [] \<rparr>,
       cv_adminCreated = truthy_bool (r_adminCreated c),
       cv_bonusSide = str_or_null (r_bonusSide c),
       cv_bonusMultiplier = str_or_null (r_bonusMultiplier c),
       cv_bonusEndsAt = r_bonusEndsAt c,
       cv_yesStakeTotal = int_or_zero (r_yesStakeTotal c),
       cv_noStakeTotal = int_or_zero (r_noStakeTotal c),
       cv_paymentTokenAddress = r_paymentTokenAddress c,
       cv_type = (if truthy_str (r_challengedId c) then ''p2p'' else ''admin'') \<rparr>"

definition challenges_handler :: "server_env \<Rightarrow> request \<Rightarrow> outcome" where
  "challenges_handler env req =
     (let limit = int_or (parseInt (query_limit req)) 100;
          offset = int_or (parseInt (query_offset req)) 0
      in case selectChallenges env of
           Threw e \<Rightarrow> Responded 500 (ErrorBody (Some ''Failed to fetch challenges''))
         | Returned allChallenges \<Rightarrow>
             Responded 200
               (ChallengesBody
                  (map (challenge_view env) (slice offset (offset + limit) allChallenges))))"

subsection \<open>POST /users/:userId/action\<close>

text \<open>
  Destructuring a missing body throws a TypeError, which the handler catches. The
  \<^verbatim>\<open>switch\<close> over the action has only empty branches.
\<close>

definition action_handler :: "server_env \<Rightarrow> request \<Rightarrow> outcome" where
  "action_handler env req =
     (case req_body req of
        None \<Rightarrow> Responded 500 (ErrorBody (Some ''Failed to execute action''))
      | Some b \<Rightarrow>
          Responded 200 (ActionBody True (''Action '' @ str_of_opt (ab_action b) @ '' executed'')))"

text \<open>\<^verbatim>\<open>router.get(path, adminAuth, handler)\<close>: the handler runs if the middleware passes.\<close>

definition admin_route ::
  "(server_env \<Rightarrow> request \<Rightarrow> outcome) \<Rightarrow> server_env \<Rightarrow> request \<Rightarrow> outcome" where
  "admin_route handler env req =
     (case adminAuth env req of
        Proceeded req' \<Rightarrow> handler env req'
      | out \<Rightarrow> out)"

section \<open>The wallet login\<close>

record wallet_body =
  walletAddress :: "string option"
  email :: "string option"

record supa_user =
  su_id :: string
  su_email :: "string option"
  su_wallet :: "string option"

text \<open>
  The identity and token services of \<^verbatim>\<open>../supabaseAuth\<close>, and the message of
  the TypeError that destructuring a missing body raises.
\<close>

record auth_env =
  getOrCreateSupabaseUser :: "string \<Rightarrow> string option \<Rightarrow> supa_user option js_result"
  generateSupabaseToken :: "string \<Rightarrow> string \<Rightarrow> string option js_result"
  typeErrorMessage :: string

datatype dep_call = ProvisionCall string "string option" | TokenCall string string

text \<open>
  The \<^verbatim>\<open>catch\<close> block reads \<^verbatim>\<open>error.message\<close>: of \<^verbatim>\<open>null\<close> or
  \<^verbatim>\<open>undefined\<close> that read throws again, outside any \<^verbatim>\<open>try\<close>.
\<close>

definition wallet_catch :: "thrown \<Rightarrow> outcome" where
  "wallet_catch e =
     (case e of Thrown m \<Rightarrow> Responded 500 (ErrorBody m) | ThrownNullish \<Rightarrow> Uncaught)"

text \<open>The handler, with the calls it made to the two services, in order.\<close>

definition wallet_login :: "auth_env \<Rightarrow> wallet_body option \<Rightarrow> outcome \<times> dep_call list" where
  "wallet_login env b =
     (case b of
        None \<Rightarrow> (wallet_catch (Thrown (Some (typeErrorMessage env))), [])
      | Some bd \<Rightarrow>
          if \<not> truthy_str (walletAddress bd)
          then (Responded 400 (ErrorBody (Some ''Missing walletAddress'')), [])
          else
            (let w = str_of_opt (walletAddress bd) in
             case getOrCreateSupabaseUser env w (email bd) of
               Threw e \<Rightarrow> (wallet_catch e, [ProvisionCall w (email bd)])
             | Returned None \<Rightarrow>
                 (Responded 500 (ErrorBody (Some ''Failed to create user'')),
                  [ProvisionCall w (email bd)])
             | Returned (Some u) \<Rightarrow>
                 (case generateSupabaseToken env (su_id u) w of
                    Threw e \<Rightarrow>
                      (wallet_catch e, [ProvisionCall w (email bd), TokenCall (su_id u) w])
                  | Returned tk \<Rightarrow>
                      if \<not> truthy_str tk
                      then (Responded 500 (ErrorBody (Some ''Failed to generate token'')),
                            [ProvisionCall w (email bd), TokenCall (su_id u) w])
                      else (Responded 200
                              (LoginBody True (str_of_opt tk) (su_id u) (su_email u) (su_wallet u)),
                            [ProvisionCall w (email bd), TokenCall (su_id u) w]))))"

section \<open>The challenge card\<close>

text \<open>
  The card's \<^verbatim>\<open>challenge\<close> prop, with the fields that the status badge, the
  bonus badges, the avatar row, the volume and the accept flow read. Three of them
  (\<^verbatim>\<open>stakeAmountWei\<close>, \<^verbatim>\<open>acceptorStaked\<close>, \<^verbatim>\<open>creatorStaked\<close>) are read
  by the component although its props interface does not declare them.
\<close>

record card_user =
  cu_id :: string
  cu_firstName :: "string option"
  cu_lastName :: "string option"
  cu_username :: "string option"
  cu_profileImageUrl :: "string option"

record challenge =
  c_id :: int
  c_challenger :: string
  c_challenged :: string
  c_challengerSide :: "string option"
  c_title :: string
  c_amount :: string
  c_status :: string
  c_dueDate :: "string option"
  c_createdAt :: string
  c_adminCreated :: "bool option"
  c_bonusSide :: "string option"
  c_bonusMultiplier :: "string option"
  c_bonusEndsAt :: "string option"
  c_bonusAmount :: "jsnum option"
  c_yesStakeTotal :: "jsnum option"
  c_noStakeTotal :: "jsnum option"
  c_paymentTokenAddress :: "string option"
  c_earlyBirdSlots :: "jsnum option"
  c_streakBonusEnabled :: "bool option"
  c_challengedUser :: "card_user option"
  c_stakeAmountWei :: "string option"
  c_acceptorStaked :: "bool option"
  c_creatorStaked :: "bool option"

record tx_result =
  transactionHash :: "string option"

text \<open>
  \<^verbatim>\<open>apiRequest\<close> resolves, or rejects with an \<^verbatim>\<open>Error\<close>, which has a message
  (the mutation's \<^verbatim>\<open>onError\<close> is typed so).
\<close>

datatype api_result = ApiError string | ApiOk

text \<open>
  The card's collaborators: the clock (\<^verbatim>\<open>Date.now()\<close>), the date parser
  (\<^verbatim>\<open>new Date(s).getTime()\<close>, \<open>None\<close> for an invalid date), the currency
  helpers of \<^verbatim>\<open>@/lib/utils\<close>, the printing of a number in a template literal,
  the staking hook, the fetch layer, and the message of the TypeError that reading a
  property of \<^verbatim>\<open>null\<close> or \<^verbatim>\<open>undefined\<close> raises.
\<close>

record card_env =
  dateNow :: int
  dateParse :: "string \<Rightarrow> int option"
  getCurrencySymbol :: "string option \<Rightarrow> string"
  formatTokenAmount :: "jsnum \<Rightarrow> string"
  numberToString :: "jsnum \<Rightarrow> string"
  blockchainAcceptP2PChallenge :: "int \<Rightarrow> tx_result js_result"
  apiRequest :: "string \<Rightarrow> string \<Rightarrow> string option \<Rightarrow> api_result"
  typeErrorText :: string

subsection \<open>getBonusBadge\<close>

datatype icon = Zap | Trophy

record bonus =
  b_type :: string
  b_label :: string
  b_icon :: icon
  b_side :: "string option"
  b_description :: string

definition isBonusActive :: "card_env \<Rightarrow> challenge \<Rightarrow> bool" where
  "isBonusActive env c =
     (case c_bonusEndsAt c of
        None \<Rightarrow> False
      | Some s \<Rightarrow>
          s \<noteq> [] \<and> (case dateParse env s of None \<Rightarrow> False | Some t \<Rightarrow> dateNow env < t))"

text \<open>The three \<^verbatim>\<open>if (...) bonuses.push(...)\<close> statements, one after the other.\<close>

definition push_weak_side :: "card_env \<Rightarrow> challenge \<Rightarrow> bonus list \<Rightarrow> bonus list" where
  "push_weak_side env c bonuses =
     (if isBonusActive env c \<and> truthy_str (c_bonusSide c) then
        bonuses @
        [\<lparr> b_type = ''weak_side'',
           b_label =
             (case c_bonusAmount c of
                None \<Rightarrow> str_of_opt (c_bonusMultiplier c) @ ''x''
              | Some a \<Rightarrow>
                  if truthy_jsnum a
                  then getCurrencySymbol env (c_paymentTokenAddress c) @ formatTokenAmount env a
                  else str_of_opt (c_bonusMultiplier c) @ ''x''),
           b_icon = Zap,
           b_side = c_bonusSide c,
           b_description = ''Bonus for '' @ str_of_opt (c_bonusSide c) @ '' side'' \<rparr>]
      else bonuses)"

definition push_early_bird :: "card_env \<Rightarrow> challenge \<Rightarrow> bonus list \<Rightarrow> bonus list" where
  "push_early_bird env c bonuses =
     (case c_earlyBirdSlots c of
        None \<Rightarrow> bonuses
      | Some n \<Rightarrow>
          if truthy_jsnum n \<and> js_pos n then
            bonuses @
            [\<lparr> b_type = ''early_bird'',
               b_label = ''Early'',
               b_icon = Zap,
               b_side = None,
               b_description = ''Bonus for first '' @ numberToString env n @ '' users'' \<rparr>]
          else bonuses)"

definition push_streak :: "challenge \<Rightarrow> bonus list \<Rightarrow> bonus list" where
  "push_streak c bonuses =
     (if truthy_bool (c_streakBonusEnabled c) then
        bonuses @
        [\<lparr> b_type = ''streak'',
           b_label = ''Streak'',
           b_icon = Trophy,
           b_side = None,
           b_description = ''Win streak bonus active'' \<rparr>]
      else bonuses)"

definition getBonusBadge :: "card_env \<Rightarrow> challenge \<Rightarrow> bonus list" where
  "getBonusBadge env c = push_streak c (push_early_bird env c (push_weak_side env c []))"

subsection \<open>getStatusBadge and the badges of the rendered card\<close>









subsection \<open>The displayed volume\<close>

text \<open>
  \<open>None\<close> when \<^verbatim>\<open>BigInt(challenge.stakeAmountWei)\<close> throws. The divisor
  \<^verbatim>\<open>Math.pow(10, decimals)\<close> is exact for 6 and for 18. The BigInt result is
  printed and read back by \<^verbatim>\<open>parseFloat\<close>, which rounds it to a double.
\<close>

definition displayVolume :: "challenge \<Rightarrow> jsnum option" where
  "displayVolume c =
     (if truthy_bool (c_adminCreated c) then
        Some (js_add (opt_or_zero (c_yesStakeTotal c)) (opt_or_zero (c_noStakeTotal c)))
      else
        (case c_stakeAmountWei c of
           None \<Rightarrow> Some (js_mul (or_zero (parseFloat (c_amount c))) (Fin 2))
         | Some wei \<Rightarrow>
             if wei = [] then Some (js_mul (or_zero (parseFloat (c_amount c))) (Fin 2))
             else
               (let decimals =
                      (if c_paymentTokenAddress c = Some ''0x0000000000000000000000000000000000000000''
                       then 18 else 6 :: nat);
                    divisor = (10 :: int) ^ decimals
                in case BigInt wei of
                     None \<Rightarrow> None
                   | Some w \<Rightarrow> Some (round_double (of_int (bigint_div w divisor * 2))))))"

subsection \<open>acceptOpenChallengeMutation\<close>

record toast =
  t_title :: string
  t_description :: string
  t_variant :: "string option"

record ui_state =
  showAcceptModal :: bool
  toasts :: "toast list"
  invalidated :: "string list"

datatype card_call = SignCall int | ApiCall string string "string option"

text \<open>
  The titles of the two toasts start with a pictograph; the bytes are those of the
  source file.
\<close>

definition accepted_title :: string where
  "accepted_title =
     [CHR 0xE2, CHR 0x80, CHR 0x9A, CHR 0xC3, CHR 0xBA, CHR 0xC3, CHR 0xAC] @ '' Challenge Accepted!''"

definition error_title :: string where
  "error_title =
     [CHR 0xE2, CHR 0x80, CHR 0x9A, CHR 0xC3, CHR 0xB9, CHR 0xC3, CHR 0xA5] @ '' Error''"

definition contention_message :: string where
  "contention_message = ''Failed to accept challenge. Someone may have accepted it first!''"

text \<open>
  \<^verbatim>\<open>mutationFn\<close>: the error it rejects with (its message), or success, and the calls
  it made. In the \<^verbatim>\<open>catch\<close> around the signing, reading the message of a thrown
  \<^verbatim>\<open>null\<close> or \<^verbatim>\<open>undefined\<close> raises a TypeError instead of the new error.
\<close>

definition accept_open_fn :: "card_env \<Rightarrow> challenge \<Rightarrow> (string + unit) \<times> card_call list" where
  "accept_open_fn env c =
     (case blockchainAcceptP2PChallenge env (c_id c) of
        Threw (Thrown m) \<Rightarrow>
          (Inl (''Blockchain signing failed: '' @ str_or m ''Unknown error''), [SignCall (c_id c)])
      | Threw ThrownNullish \<Rightarrow> (Inl (typeErrorText env), [SignCall (c_id c)])
      | Returned txResult \<Rightarrow>
          (let url = ''/api/challenges/'' @ string_of_int (c_id c) @ ''/accept-open'' in
           case apiRequest env ''POST'' url (transactionHash txResult) of
             ApiError msg \<Rightarrow>
               (Inl msg, [SignCall (c_id c), ApiCall ''POST'' url (transactionHash txResult)])
           | ApiOk \<Rightarrow>
               (Inr (), [SignCall (c_id c), ApiCall ''POST'' url (transactionHash txResult)])))"

definition accept_open_onSuccess :: "ui_state \<Rightarrow> ui_state" where
  "accept_open_onSuccess st =
     st\<lparr> toasts := toasts st @
            [\<lparr> t_title = accepted_title,
               t_description = ''You're in! Both stakes are now locked on-chain.'',
               t_variant = None \<rparr>],
         showAcceptModal := False,
         invalidated := invalidated st @ [''/api/challenges''] \<rparr>"

definition accept_open_onError :: "string \<Rightarrow> ui_state \<Rightarrow> ui_state" where
  "accept_open_onError msg st =
     st\<lparr> toasts := toasts st @
            [\<lparr> t_title = error_title,
               t_description = (if msg \<noteq> [] then msg else contention_message),
               t_variant = Some ''destructive'' \<rparr>] \<rparr>"

text \<open>\<^verbatim>\<open>acceptOpenChallengeMutation.mutate()\<close>: the new state of the card, and the calls.\<close>

definition acceptOpenChallengeMutation ::
  "card_env \<Rightarrow> challenge \<Rightarrow> ui_state \<Rightarrow> ui_state \<times> card_call list" where
  "acceptOpenChallengeMutation env c st =
     (case accept_open_fn env c of
        (Inl msg, calls) \<Rightarrow> (accept_open_onError msg st, calls)
      | (Inr u, calls) \<Rightarrow> (accept_open_onSuccess st, calls))"

section \<open>Example data\<close>

definition alice :: user where
  "alice = \<lparr> u_id = ''u_1'', u_username = Some ''alice'', u_firstName = Some ''Alice'',
     u_lastName = None, u_email = Some ''alice@example.org'', u_level = Some 3,
     u_points = Some 120, u_balance = Some ''25.50'', u_createdAt = Some 1700000000000,
     u_lastLogin = None, u_status = Some ''active'', u_isActive = Some True,
     u_isAdmin = Some True \<rparr>"

definition bob :: user where
  "bob = alice\<lparr> u_id := ''bob'', u_username := Some ''bob'', u_isAdmin := Some False \<rparr>"

definition store_env :: server_env where
  "store_env =
     \<lparr> getUser = (\<lambda>uid. if uid = ''u_1'' then Returned (Some alice)
                        else if uid = ''bob'' then Returned (Some bob)
                        else if uid = ''x'' then Returned (Some alice)
                        else if uid = ''down'' then Threw (Thrown (Some ''connection lost''))
                        else Returned None),
       getAllUsersWithWallets = Returned [alice, bob],
       selectChallenges = Returned [],
       oneWeekAgo = 1699400000000,
       nowIso = ''2023-11-14T22:13:20.000Z'' \<rparr>"

definition bare_request :: request where
  "bare_request =
     \<lparr> authorization = None, query_limit = None, query_offset = None,
       params_userId = ''u_1'', req_body = None, req_user = None \<rparr>"

definition blank_row :: challenge_row where
  "blank_row =
     \<lparr> r_id = 7, r_title = None, r_description = None, r_category = None, r_status = None,
       r_amount = None, r_result = None, r_evidence = None, r_dueDate = None,
       r_createdAt = None, r_completedAt = None, r_isPinned = None, r_challengerId = None,
       r_challengedId = None, r_challengerUsername = None, r_challengedUsername = None,
       r_adminCreated = None, r_bonusSide = None, r_bonusMultiplier = None,
       r_bonusEndsAt = None, r_yesStakeTotal = None, r_noStakeTotal = None,
       r_paymentTokenAddress = None \<rparr>"

definition three_rows :: "challenge_row list" where
  "three_rows =
     [blank_row\<lparr>r_amount := Some ''10''\<rparr>, blank_row, blank_row\<lparr>r_amount := Some ''5.5''\<rparr>]"

definition login_env :: auth_env where
  "login_env =
     \<lparr> getOrCreateSupabaseUser =
         (\<lambda>w e. if w = ''0xA11CE''
                 then Returned (Some \<lparr> su_id = ''sb_1'', su_email = e, su_wallet = Some w \<rparr>)
                 else if w = ''0xDEAD'' then Returned None
                 else if w = ''0xB0B''
                 then Returned (Some \<lparr> su_id = ''sb_2'', su_email = e, su_wallet = Some w \<rparr>)
                 else Threw (Thrown (Some ''identity service unavailable''))),
       generateSupabaseToken =
         (\<lambda>uid w. if uid = ''sb_1'' then Returned (Some (''jwt:'' @ uid @ '':'' @ w))
                   else Returned None),
       typeErrorMessage = ''Cannot destructure property of undefined'' \<rparr>"

definition card_env0 :: card_env where
  "card_env0 =
     \<lparr> dateNow = 1700000000000,
       dateParse = (\<lambda>s. if s = ''2023-11-15T00:00:00Z'' then Some 1700006400000
                         else if s = ''2023-11-14T00:00:00Z'' then Some 1699920000000
                         else None),
       getCurrencySymbol = (\<lambda>a. ''$''),
       formatTokenAmount = (\<lambda>n. if n = Fin 500 then ''500'' else ''0''),
       numberToString = (\<lambda>n. if n = Fin 5 then ''5'' else ''0''),
       blockchainAcceptP2PChallenge = (\<lambda>i. Returned \<lparr> transactionHash = Some ''0xfeed'' \<rparr>),
       apiRequest = (\<lambda>m u h. ApiOk),
       typeErrorText = ''Cannot read properties of undefined'' \<rparr>"

definition p2p_card :: challenge where
  "p2p_card =
     \<lparr> c_id = 42, c_challenger = ''u_1'', c_challenged = [], c_challengerSide = Some ''YES'',
       c_title = ''Who wins the derby?'', c_amount = ''50'', c_status = ''open'',
       c_dueDate = None, c_createdAt = ''2023-11-14T00:00:00Z'', c_adminCreated = None,
       c_bonusSide = None, c_bonusMultiplier = None, c_bonusEndsAt = None,
       c_bonusAmount = None, c_yesStakeTotal = None, c_noStakeTotal = None,
       c_paymentTokenAddress = Some ''0x833589fCD6eDb6E08f4c7C32D4f71b54bdA02913'',
       c_earlyBirdSlots = None, c_streakBonusEnabled = None, c_challengedUser = None,
       c_stakeAmountWei = None, c_acceptorStaked = None, c_creatorStaked = None \<rparr>"

definition bonus_card :: challenge where
  "bonus_card =
     p2p_card\<lparr> c_adminCreated := Some True, c_bonusSide := Some ''NO'',
       c_bonusMultiplier := Some ''1.5'', c_bonusEndsAt := Some ''2023-11-15T00:00:00Z'',
       c_earlyBirdSlots := Some (Fin 5), c_streakBonusEnabled := Some True \<rparr>"

definition five_users :: "user list" where
  "five_users =
     [alice, bob, alice\<lparr>u_id := ''carol''\<rparr>, alice\<lparr>u_id := ''dave''\<rparr>, alice\<lparr>u_id := ''erin''\<rparr>]"

definition modal_open :: ui_state where
  "modal_open = \<lparr> showAcceptModal = True, toasts = [], invalidated = [] \<rparr>"

definition race_env :: card_env where
  "race_env = card_env0\<lparr>apiRequest := (\<lambda>m u h. ApiError ''409: Challenge already accepted'')\<rparr>"

definition rejecting_env :: card_env where
  "rejecting_env =
     card_env0\<lparr>blockchainAcceptP2PChallenge :=
       (\<lambda>i. Threw (Thrown (Some ''User rejected the request'')))\<rparr>"

definition failing_env :: server_env where
  "failing_env =
     store_env\<lparr> getAllUsersWithWallets := Threw ThrownNullish,
       selectChallenges := Threw (Thrown (Some ''relation does not exist'')) \<rparr>"

section \<open>Notions of the specification\<close>

text \<open>
  The amount that a challenge contributes to the totals as the specification words it:
  the parsed \<^verbatim>\<open>amount\<close>, and 0 when the amount is absent or does not parse.
\<close>

definition spec_amount :: "challenge_row \<Rightarrow> rat" where
  "spec_amount c =
     (case r_amount c of
        None \<Rightarrow> 0
      | Some a \<Rightarrow> (case parseFloat a of Fin q \<Rightarrow> q | _ \<Rightarrow> 0))"

text \<open>
  The amounts that are present, in the order of the collection, and the sum of a list
  of doubles as the loop accumulates it: from 0, left to right, each addition rounded.
\<close>

definition present_amounts :: "challenge_row list \<Rightarrow> string list" where
  "present_amounts cs =
     concat (map (\<lambda>c. case r_amount c of
                          None \<Rightarrow> []
                        | Some a \<Rightarrow> if a = [] then [] else [a]) cs)"

definition double_sum :: "jsnum list \<Rightarrow> jsnum" where
  "double_sum xs = foldl js_add (Fin 0) xs"

text \<open>The amount of a challenge is absent (or empty), or it parses as a finite number.\<close>

definition amount_readable :: "challenge_row \<Rightarrow> bool" where
  "amount_readable c =
     (case r_amount c of
        None \<Rightarrow> True
      | Some a \<Rightarrow> a = [] \<or> (case parseFloat a of Fin q \<Rightarrow> True | _ \<Rightarrow> False))"

text \<open>The all-zero address that stands for the chain's native currency.\<close>

definition zero_address :: string where
  "zero_address = ''0x0000000000000000000000000000000000000000''"

section \<open>Properties of the built-ins\<close>

text \<open>
  The string functions meet their JavaScript descriptions: \<^verbatim>\<open>startsWith\<close> tests
  for a prefix, the pieces of a split hold no separator, and joining them with the
  separator gives the string back.
\<close>

lemma startsWith_iff: "startsWith s p \<longleftrightarrow> (\<exists>r. s = p @ r)"
  by (induction s p rule: startsWith.induct) auto

lemma startsWith_append: "startsWith (p @ s) p"
  by (induction p) auto

lemma split_chr_nonempty: "split_chr sep s \<noteq> []"
  by (induction s) (auto split: list.splits)

lemma split_chr_no_sep: "p \<in> set (split_chr sep s) \<Longrightarrow> sep \<notin> set p"
  by (induction s arbitrary: p) (auto split: list.splits if_splits)

lemma join_split_chr: "join [sep] (split_chr sep s) = s"
proof (induction s)
  case Nil
  then show ?case by simp
next
  case (Cons c cs)
  obtain p ps where ps: "split_chr sep cs = p # ps"
    using split_chr_nonempty [of sep cs] by (cases "split_chr sep cs") auto
  with Cons show ?case
    by (cases ps) auto
qed

lemma replace_first_prefix: "pat \<noteq> [] \<Longrightarrow> replace_first pat rep (pat @ s) = rep @ s"
  by (cases pat) (auto simp: startsWith_append)

lemma replace_first_absent: "\<not> includes_str s pat \<Longrightarrow> replace_first pat rep s = s"
  by (induction s) auto

lemma slice_1_m1: "slice 1 (- 1) xs = butlast (tl xs)"
proof (cases xs)
  case Nil
  then show ?thesis by (simp add: slice_def)
next
  case (Cons a list)
  have "nat (int (length list) - 1) = length list - 1" by simp
  with Cons show ?thesis by (simp add: slice_def Let_def butlast_conv_take)
qed

lemma floor_rat_numeral:
  "\<lfloor>(numeral a :: rat) / numeral b\<rfloor> = (numeral a :: int) div numeral b"
  using floor_divide_of_int_eq [of "numeral a" "numeral b", where ?'a = rat] by simp

lemmas round_eval =
  round_double_def round_pos_def round_half_even_def pow2_def exp_up.simps exp_down.simps
  Let_def floor_rat_numeral

lemmas parse_eval =
  parseFloat_def parseInt_def BigInt_def all_digits_def is_ws_def digit_of_def digits_val_def
  scale10_def take_exponent_def round_eval

text \<open>Rounding never gives \<^verbatim>\<open>NaN\<close>, and neither does adding a finite value.\<close>

lemma round_pos_not_NaN: "round_pos a \<noteq> NaN"
  by (simp add: round_pos_def Let_def split: prod.splits)

lemma round_double_not_NaN: "round_double q \<noteq> NaN"
proof -
  have "js_neg x \<noteq> NaN" if "x \<noteq> NaN" for x
    using that by (cases x) auto
  then show ?thesis
    by (simp add: round_double_def round_pos_not_NaN)
qed

lemma js_add_Fin_not_NaN: "x \<noteq> NaN \<Longrightarrow> js_add x (Fin q) \<noteq> NaN"
  by (cases x) (auto simp: round_double_not_NaN)

text \<open>
  The rounding at work: 0.1 + 0.2 is the double 0.3000000000000000444..., not 3/10;
  an integer halfway between two doubles goes to the one with the even significand;
  \<^verbatim>\<open>1e400\<close> reads as \<^verbatim>\<open>Infinity\<close>, and 1e308 + 1e308 overflows.
\<close>

lemma double_addition_rounds:
  "js_add (parseFloat ''0.1'') (parseFloat ''0.2'') = Fin (1351079888211149 / 4503599627370496)"
  by (simp add: parse_eval)

lemma round_double_ties_to_even:
  "round_double (2 ^ 53 + 1) = Fin (2 ^ 53) \<and> round_double (2 ^ 53 + 3) = Fin (2 ^ 53 + 4)"
  by (simp add: round_eval)

lemma parseFloat_overflows: "parseFloat ''1e400'' = PInf"
  by (simp add: parse_eval)

lemma double_addition_overflows:
  "js_add (parseFloat ''1e308'') (parseFloat ''1e308'') = PInf"
  by (simp add: parse_eval)

lemma parseFloat_empty: "parseFloat [] = NaN"
  by (simp add: parseFloat_def)

lemma slice_take_drop:
  assumes "0 \<le> k" and "0 \<le> l"
  shows "slice k (k + l) xs = take (nat l) (drop (nat k) xs)"
proof (cases "k \<le> int (length xs)")
  case True
  have "take (nat (min (k + l) (int (length xs)) - k)) (drop (nat k) xs)
      = take (nat l) (drop (nat k) xs)"
  proof (cases "k + l \<le> int (length xs)")
    case True
    then show ?thesis by (simp add: min_def)
  next
    case False
    with \<open>k \<le> int (length xs)\<close> assms have "length (drop (nat k) xs) \<le> nat l"
      and "length (drop (nat k) xs) \<le> nat (int (length xs) - k)"
      by auto
    with False show ?thesis by (simp add: min_def)
  qed
  with True assms show ?thesis
    by (simp add: slice_def Let_def min_def)
next
  case False
  with assms show ?thesis
    by (simp add: slice_def Let_def min_def)
qed

lemma bigint_div_nonneg: "0 \<le> a \<Longrightarrow> 0 < b \<Longrightarrow> bigint_div a b = a div b"
  by (cases "a = 0") (simp_all add: bigint_div_def)

section \<open>The admin middleware\<close>

text \<open>
  C1. Let the token be the Authorization header after the removal of
  \<^verbatim>\<open>'Bearer '\<close>. The middleware answers 401 when the token is missing or empty or
  does not start with \<^verbatim>\<open>admin_\<close>, and 401 when it splits at underscores into
  fewer than 3 segments. Otherwise the user id is the segments strictly between the
  first and the last, rejoined with underscores; the middleware answers 403 when the
  store returns no user for that id or a user whose admin flag is not set, and when the
  flag is set it attaches the user to the request and passes control on.
\<close>

theorem adminAuth_token_checks:
  assumes tok: "token = map_option (replace_first ''Bearer '' []) (authorization req)"
  shows
    "(token = None \<or> token = Some [] \<or> (\<exists>t. token = Some t \<and> \<not> startsWith t ''admin_'')
        \<longrightarrow> adminAuth env req = Responded 401 (ErrorBody (Some ''Unauthorized''))) \<and>
     (\<forall>t. token = Some t \<and> startsWith t ''admin_'' \<and> length (split_chr CHR ''_'' t) < 3
        \<longrightarrow> adminAuth env req = Responded 401 (ErrorBody (Some ''Invalid token format''))) \<and>
     (\<forall>t. token = Some t \<and> startsWith t ''admin_'' \<and> 3 \<le> length (split_chr CHR ''_'' t)
        \<longrightarrow>
          (getUser env (join ''_'' (butlast (tl (split_chr CHR ''_'' t)))) = Returned None
             \<longrightarrow> adminAuth env req = Responded 403 (ErrorBody (Some ''Admin access required''))) \<and>
          (\<forall>u. getUser env (join ''_'' (butlast (tl (split_chr CHR ''_'' t)))) = Returned (Some u)
             \<longrightarrow> adminAuth env req =
                   (if truthy_bool (u_isAdmin u) then Proceeded (req\<lparr>req_user := Some u\<rparr>)
                    else Responded 403 (ErrorBody (Some ''Admin access required'')))))"
proof -
  have nonempty: "startsWith t ''admin_'' \<Longrightarrow> t \<noteq> []" for t
    by (cases t) auto
  show ?thesis
    unfolding adminAuth_def tok [symmetric]
    by (auto simp: Let_def slice_1_m1 dest: nonempty split: option.splits)
qed

theorem adminAuth_token_checks_witness:
  "adminAuth store_env (bare_request\<lparr>authorization := Some ''Bearer admin_u_1_1700000000''\<rparr>)
     = Proceeded (bare_request\<lparr>authorization := Some ''Bearer admin_u_1_1700000000'',
                               req_user := Some alice\<rparr>) \<and>
   adminAuth store_env (bare_request\<lparr>authorization := Some ''Bearer admin_bob_1700000000''\<rparr>)
     = Responded 403 (ErrorBody (Some ''Admin access required'')) \<and>
   adminAuth store_env (bare_request\<lparr>authorization := Some ''Bearer admin_nobody_1700000000''\<rparr>)
     = Responded 403 (ErrorBody (Some ''Admin access required'')) \<and>
   adminAuth store_env (bare_request\<lparr>authorization := Some ''Bearer admin_17''\<rparr>)
     = Responded 401 (ErrorBody (Some ''Invalid token format'')) \<and>
   adminAuth store_env (bare_request\<lparr>authorization := Some ''Bearer user_u_1_17''\<rparr>)
     = Responded 401 (ErrorBody (Some ''Unauthorized'')) \<and>
   adminAuth store_env bare_request = Responded 401 (ErrorBody (Some ''Unauthorized''))"
proof -
  note spec = adminAuth_token_checks [OF refl, of _ store_env]
  have a: "truthy_bool (u_isAdmin alice)" "\<not> truthy_bool (u_isAdmin bob)"
    by (simp_all add: alice_def bob_def truthy_bool_def)
  show ?thesis
    using spec [of "bare_request\<lparr>authorization := Some ''Bearer admin_u_1_1700000000''\<rparr>"]
      spec [of "bare_request\<lparr>authorization := Some ''Bearer admin_bob_1700000000''\<rparr>"]
      spec [of "bare_request\<lparr>authorization := Some ''Bearer admin_nobody_1700000000''\<rparr>"]
      spec [of "bare_request\<lparr>authorization := Some ''Bearer admin_17''\<rparr>"]
      spec [of "bare_request\<lparr>authorization := Some ''Bearer user_u_1_17''\<rparr>"]
      spec [of bare_request] a
    by (simp add: store_env_def bare_request_def)
qed


text \<open>
  C10. The claim as stated fails: \<^verbatim>\<open>replace\<close> removes the first occurrence of
  \<^verbatim>\<open>'Bearer '\<close> wherever it stands, so a bare header
  \<^verbatim>\<open>admin_<userId>_<timestamp>\<close> whose user id holds \<^verbatim>\<open>'Bearer '\<close> is
  authenticated as another user than the same token behind a \<^verbatim>\<open>'Bearer '\<close>
  prefix. Here the bare header passes as the admin \<^verbatim>\<open>x\<close>, and the prefixed one
  is refused, because no user \<^verbatim>\<open>Bearer x\<close> exists.
\<close>

theorem bare_token_counterexample:
  "observe (adminAuth store_env (bare_request\<lparr>authorization := Some ''admin_Bearer x_1700000000''\<rparr>))
     = Some (Passed (Some alice)) \<and>
   observe (adminAuth store_env
      (bare_request\<lparr>authorization := Some ''Bearer admin_Bearer x_1700000000''\<rparr>))
     = Some (Answer 403 (ErrorBody (Some ''Admin access required'')))"
  by (simp add: adminAuth_def store_env_def bare_request_def slice_def alice_def truthy_bool_def)

text \<open>
  What the middleware does depends on the request only through the token, that is the
  header after the removal of \<^verbatim>\<open>'Bearer '\<close>.
\<close>

lemma adminAuth_by_token:
  assumes "map_option (replace_first ''Bearer '' []) (authorization r1)
         = map_option (replace_first ''Bearer '' []) (authorization r2)"
  shows "observe (adminAuth env r1) = observe (adminAuth env r2)"
  unfolding adminAuth_def assms
  by (simp add: Let_def split: option.splits js_result.splits)

text \<open>
  C10, amended. For every Authorization header value in which \<^verbatim>\<open>'Bearer '\<close> does
  not occur (so for every bare \<^verbatim>\<open>admin_<userId>_<timestamp>\<close> whose parts do not
  hold that text), the middleware answers, or attaches a user and passes control on,
  exactly as it does for the same value behind a \<^verbatim>\<open>'Bearer '\<close> prefix.
\<close>

theorem bare_token_same_as_bearer:
  assumes "\<not> includes_str h ''Bearer ''"
  shows "observe (adminAuth env (req\<lparr>authorization := Some h\<rparr>))
       = observe (adminAuth env (req\<lparr>authorization := Some (''Bearer '' @ h)\<rparr>))"
proof -
  have a: "replace_first ''Bearer '' [] h = h"
    using assms by (rule replace_first_absent)
  show ?thesis
    by (rule adminAuth_by_token) (simp add: a)
qed

theorem bare_token_same_as_bearer_witness:
  "observe (adminAuth store_env (bare_request\<lparr>authorization := Some ''admin_u_1_1700000000''\<rparr>))
     = observe (adminAuth store_env
         (bare_request\<lparr>authorization := Some ''Bearer admin_u_1_1700000000''\<rparr>))"
  using bare_token_same_as_bearer [of "''admin_u_1_1700000000''" store_env bare_request]
  by simp

section \<open>Exceptions\<close>

text \<open>
  C6. The claim as stated fails for the admin middleware: when the user lookup throws,
  its \<^verbatim>\<open>catch\<close> block answers 401, not 500.
\<close>

theorem adminAuth_catch_counterexample:
  "getUser store_env ''down'' = Threw (Thrown (Some ''connection lost'')) \<and>
   adminAuth store_env (bare_request\<lparr>authorization := Some ''Bearer admin_down_1700000000''\<rparr>)
     = Responded 401 (ErrorBody (Some ''Unauthorized''))"
  by (simp add: adminAuth_def store_env_def bare_request_def slice_def)

text \<open>
  C6, amended. No exception leaves an admin route handler, the admin middleware, or a
  route composed of the two. Each
  of the five admin route handlers answers every exception thrown while it runs (by the
  user store, by the database, or by reading a missing body) with status 500 and its
  own fixed message. The admin middleware answers an exception of the user lookup with
  401 \<^verbatim>\<open>Unauthorized\<close>. The wallet login answers a thrown object (from reading
  a missing body or from either service) with status 500 and the object's message.
\<close>

theorem exceptions_answered:
  "stats_handler env req \<noteq> Uncaught \<and> users_handler env req \<noteq> Uncaught \<and>
   user_handler env req \<noteq> Uncaught \<and> challenges_handler env req \<noteq> Uncaught \<and>
   action_handler env req \<noteq> Uncaught \<and> adminAuth env req \<noteq> Uncaught \<and>
   admin_route stats_handler env req \<noteq> Uncaught \<and>
   admin_route users_handler env req \<noteq> Uncaught \<and>
   admin_route user_handler env req \<noteq> Uncaught \<and>
   admin_route challenges_handler env req \<noteq> Uncaught \<and>
   admin_route action_handler env req \<noteq> Uncaught \<and>
   ((\<exists>e. getAllUsersWithWallets env = Threw e) \<or> (\<exists>e. selectChallenges env = Threw e) \<longrightarrow>
      stats_handler env req = Responded 500 (ErrorBody (Some ''Failed to fetch stats''))) \<and>
   ((\<exists>e. getAllUsersWithWallets env = Threw e) \<longrightarrow>
      users_handler env req = Responded 500 (ErrorBody (Some ''Failed to fetch users''))) \<and>
   ((\<exists>e. getUser env (params_userId req) = Threw e) \<longrightarrow>
      user_handler env req = Responded 500 (ErrorBody (Some ''Failed to fetch user''))) \<and>
   ((\<exists>e. selectChallenges env = Threw e) \<longrightarrow>
      challenges_handler env req = Responded 500 (ErrorBody (Some ''Failed to fetch challenges''))) \<and>
   (req_body req = None \<longrightarrow>
      action_handler env req = Responded 500 (ErrorBody (Some ''Failed to execute action''))) \<and>
   (\<forall>h t e. authorization req = Some h \<and> t = replace_first ''Bearer '' [] h \<and>
        startsWith t ''admin_'' \<and> 3 \<le> length (split_chr CHR ''_'' t) \<and>
        getUser env (join ''_'' (butlast (tl (split_chr CHR ''_'' t)))) = Threw e \<longrightarrow>
      adminAuth env req = Responded 401 (ErrorBody (Some ''Unauthorized''))) \<and>
   fst (wallet_login aenv None) = Responded 500 (ErrorBody (Some (typeErrorMessage aenv))) \<and>
   (\<forall>w m. walletAddress bd = Some w \<and> w \<noteq> [] \<and>
        getOrCreateSupabaseUser aenv w (email bd) = Threw (Thrown m) \<longrightarrow>
      fst (wallet_login aenv (Some bd)) = Responded 500 (ErrorBody m)) \<and>
   (\<forall>w u m. walletAddress bd = Some w \<and> w \<noteq> [] \<and>
        getOrCreateSupabaseUser aenv w (email bd) = Returned (Some u) \<and>
        generateSupabaseToken aenv (su_id u) w = Threw (Thrown m) \<longrightarrow>
      fst (wallet_login aenv (Some bd)) = Responded 500 (ErrorBody m))"
proof -
  have nonempty: "startsWith t ''admin_'' \<Longrightarrow> t \<noteq> []" for t
    by (cases t) auto
  have h1: "stats_handler env r \<noteq> Uncaught \<and> users_handler env r \<noteq> Uncaught \<and>
      user_handler env r \<noteq> Uncaught \<and> challenges_handler env r \<noteq> Uncaught \<and>
      action_handler env r \<noteq> Uncaught" for r
    by (simp add: stats_handler_def users_handler_def user_handler_def challenges_handler_def
        action_handler_def Let_def split: js_result.splits option.splits)
  have h2: "adminAuth env req \<noteq> Uncaught"
    by (simp add: adminAuth_def Let_def split: js_result.splits option.splits)
  have h0: "admin_route stats_handler env req \<noteq> Uncaught \<and>
      admin_route users_handler env req \<noteq> Uncaught \<and>
      admin_route user_handler env req \<noteq> Uncaught \<and>
      admin_route challenges_handler env req \<noteq> Uncaught \<and>
      admin_route action_handler env req \<noteq> Uncaught"
    using h1 h2 by (simp add: admin_route_def split: outcome.splits)
  have h3: "(\<exists>e. getAllUsersWithWallets env = Threw e) \<or> (\<exists>e. selectChallenges env = Threw e) \<longrightarrow>
      stats_handler env req = Responded 500 (ErrorBody (Some ''Failed to fetch stats''))"
    by (auto simp: stats_handler_def split: js_result.splits)
  have h4: "((\<exists>e. getAllUsersWithWallets env = Threw e) \<longrightarrow>
      users_handler env req = Responded 500 (ErrorBody (Some ''Failed to fetch users''))) \<and>
   ((\<exists>e. getUser env (params_userId req) = Threw e) \<longrightarrow>
      user_handler env req = Responded 500 (ErrorBody (Some ''Failed to fetch user''))) \<and>
   ((\<exists>e. selectChallenges env = Threw e) \<longrightarrow>
      challenges_handler env req = Responded 500 (ErrorBody (Some ''Failed to fetch challenges''))) \<and>
   (req_body req = None \<longrightarrow>
      action_handler env req = Responded 500 (ErrorBody (Some ''Failed to execute action'')))"
    by (auto simp: users_handler_def user_handler_def challenges_handler_def action_handler_def
        Let_def)
  have h5: "\<forall>h t e. authorization req = Some h \<and> t = replace_first ''Bearer '' [] h \<and>
        startsWith t ''admin_'' \<and> 3 \<le> length (split_chr CHR ''_'' t) \<and>
        getUser env (join ''_'' (butlast (tl (split_chr CHR ''_'' t)))) = Threw e \<longrightarrow>
      adminAuth env req = Responded 401 (ErrorBody (Some ''Unauthorized''))"
    by (auto simp: adminAuth_def Let_def slice_1_m1 dest: nonempty)
  have h6: "fst (wallet_login aenv None) = Responded 500 (ErrorBody (Some (typeErrorMessage aenv))) \<and>
   (\<forall>w m. walletAddress bd = Some w \<and> w \<noteq> [] \<and>
        getOrCreateSupabaseUser aenv w (email bd) = Threw (Thrown m) \<longrightarrow>
      fst (wallet_login aenv (Some bd)) = Responded 500 (ErrorBody m)) \<and>
   (\<forall>w u m. walletAddress bd = Some w \<and> w \<noteq> [] \<and>
        getOrCreateSupabaseUser aenv w (email bd) = Returned (Some u) \<and>
        generateSupabaseToken aenv (su_id u) w = Threw (Thrown m) \<longrightarrow>
      fst (wallet_login aenv (Some bd)) = Responded 500 (ErrorBody m))"
    by (auto simp: wallet_login_def wallet_catch_def truthy_str_def str_of_opt_def Let_def)
  from h0 h1 [of req] h2 h3 h4 h5 h6 show ?thesis by blast
qed

theorem exceptions_answered_witness:
  "stats_handler failing_env bare_request = Responded 500 (ErrorBody (Some ''Failed to fetch stats'')) \<and>
   users_handler failing_env bare_request = Responded 500 (ErrorBody (Some ''Failed to fetch users'')) \<and>
   user_handler failing_env (bare_request\<lparr>params_userId := ''down''\<rparr>)
     = Responded 500 (ErrorBody (Some ''Failed to fetch user'')) \<and>
   challenges_handler failing_env bare_request
     = Responded 500 (ErrorBody (Some ''Failed to fetch challenges'')) \<and>
   action_handler failing_env bare_request
     = Responded 500 (ErrorBody (Some ''Failed to execute action'')) \<and>
   adminAuth failing_env (bare_request\<lparr>authorization := Some ''Bearer admin_down_1700000000''\<rparr>)
     = Responded 401 (ErrorBody (Some ''Unauthorized'')) \<and>
   fst (wallet_login login_env (Some \<lparr> walletAddress = Some ''0xF00'', email = None \<rparr>))
     = Responded 500 (ErrorBody (Some ''identity service unavailable''))"
  using exceptions_answered [of failing_env bare_request login_env
      "\<lparr> walletAddress = Some ''0xF00'', email = None \<rparr>"]
    exceptions_answered [of failing_env "bare_request\<lparr>params_userId := ''down''\<rparr>" login_env
      "\<lparr> walletAddress = Some ''0xF00'', email = None \<rparr>"]
    exceptions_answered [of failing_env
      "bare_request\<lparr>authorization := Some ''Bearer admin_down_1700000000''\<rparr>" login_env
      "\<lparr> walletAddress = Some ''0xF00'', email = None \<rparr>"]
  by (simp add: failing_env_def store_env_def bare_request_def login_env_def)

text \<open>
  A service that rejects with \<^verbatim>\<open>null\<close> or \<^verbatim>\<open>undefined\<close> is not covered by
  the statement above: the \<^verbatim>\<open>catch\<close> block of the wallet login reads
  \<^verbatim>\<open>error.message\<close>, which throws again.
\<close>

lemma wallet_login_nullish_escapes:
  "fst (wallet_login (login_env\<lparr>getOrCreateSupabaseUser := (\<lambda>w e. Threw ThrownNullish)\<rparr>)
         (Some \<lparr> walletAddress = Some ''0xA11CE'', email = None \<rparr>)) = Uncaught"
  by (simp add: wallet_login_def wallet_catch_def login_env_def truthy_str_def str_of_opt_def)

section \<open>The statistics\<close>

lemma stake_loop_folds:
  "stake_loop cs (v, s) =
     (foldl js_add v (map parseFloat (present_amounts cs)),
      foldl js_add s (map parseFloat (present_amounts cs)))"
proof (induction cs arbitrary: v s)
  case Nil
  then show ?case by (simp add: present_amounts_def)
next
  case (Cons c cs)
  show ?case
  proof (cases "r_amount c")
    case None
    then show ?thesis
      using Cons.IH [of v s] by (simp add: present_amounts_def)
  next
    case (Some a)
    then show ?thesis
      using Cons.IH [of v s] Cons.IH [of "js_add v (parseFloat a)" "js_add s (parseFloat a)"]
      by (simp add: present_amounts_def Let_def)
  qed
qed

lemma readable_present:
  assumes "list_all amount_readable cs" and "a \<in> set (present_amounts cs)"
  shows "\<exists>q. parseFloat a = Fin q"
proof -
  from assms(2) obtain c where c: "c \<in> set cs" "r_amount c = Some a" "a \<noteq> []"
    by (auto simp: present_amounts_def split: option.splits if_splits)
  from assms(1) c(1) have "amount_readable c"
    by (simp add: list_all_iff)
  with c(2,3) show ?thesis
    by (auto simp: amount_readable_def split: jsnum.splits)
qed

lemma foldl_js_add_not_NaN:
  "acc \<noteq> NaN \<Longrightarrow> (\<And>a. a \<in> set as \<Longrightarrow> \<exists>q. parseFloat a = Fin q) \<Longrightarrow>
   foldl js_add acc (map parseFloat as) \<noteq> NaN"
proof (induction as arbitrary: acc)
  case Nil
  then show ?case by simp
next
  case (Cons a as)
  from Cons.prems(2) [of a] obtain q where q: "parseFloat a = Fin q" by auto
  have "js_add acc (parseFloat a) \<noteq> NaN"
    using Cons.prems(1) by (simp add: q js_add_Fin_not_NaN)
  then show ?case
    using Cons.IH [of "js_add acc (parseFloat a)"] Cons.prems(2) by simp
qed

text \<open>
  C2. The claim as stated fails for an amount that does not parse: the loop adds
  \<^verbatim>\<open>NaN\<close>, and both totals of the answer are \<^verbatim>\<open>NaN\<close>, where the claim
  has the challenge contribute 0.
\<close>

theorem stats_totals_unparsable_counterexample:
  "stats_handler (store_env\<lparr>selectChallenges := Returned [blank_row\<lparr>r_amount := Some ''ten''\<rparr>]\<rparr>)
      bare_request
     = Responded 200
         (StatsBody (stats_of store_env [alice, bob] [blank_row\<lparr>r_amount := Some ''ten''\<rparr>])) \<and>
   totalVolume (stats_of store_env [alice, bob] [blank_row\<lparr>r_amount := Some ''ten''\<rparr>]) = NaN \<and>
   totalChallengeStaked (stats_of store_env [alice, bob] [blank_row\<lparr>r_amount := Some ''ten''\<rparr>])
     = NaN \<and>
   Fin (sum_list (map spec_amount [blank_row\<lparr>r_amount := Some ''ten''\<rparr>])) = Fin 0"
  by (simp add: stats_handler_def stats_of_def store_env_def blank_row_def spec_amount_def
      parse_eval)

text \<open>
  C2, amended. When both collections load and every challenge's amount is absent or
  parses as a finite number, the stats endpoint answers with \<^verbatim>\<open>totalVolume\<close> and
  \<^verbatim>\<open>totalChallengeStaked\<close> both equal to the sum of the parsed amounts of the
  challenges that have one, added up as doubles from 0 in the order of the collection
  (each addition rounded, an overflow giving an infinity); a challenge whose amount is
  absent adds nothing, and the totals are not \<^verbatim>\<open>NaN\<close>. For the amounts
  \<^verbatim>\<open>"10"\<close>, absent and \<^verbatim>\<open>"5.5"\<close> both totals are 15.5.
\<close>

theorem stats_totals:
  assumes "getAllUsersWithWallets env = Returned allUsers"
    and "selectChallenges env = Returned allChallenges"
    and "list_all amount_readable allChallenges"
  shows "\<exists>st. stats_handler env req = Responded 200 (StatsBody st) \<and>
           totalVolume st = double_sum (map parseFloat (present_amounts allChallenges)) \<and>
           totalChallengeStaked st = double_sum (map parseFloat (present_amounts allChallenges)) \<and>
           totalVolume st \<noteq> NaN \<and> totalChallengeStaked st \<noteq> NaN"
proof -
  have "foldl js_add (Fin 0) (map parseFloat (present_amounts allChallenges)) \<noteq> NaN"
    using readable_present [OF assms(3)] by (intro foldl_js_add_not_NaN) simp_all
  then show ?thesis
    using assms(1,2)
    by (simp add: stats_handler_def stats_of_def Let_def stake_loop_folds double_sum_def)
qed

theorem stats_totals_witness:
  "\<exists>st. stats_handler (store_env\<lparr>selectChallenges := Returned three_rows\<rparr>) bare_request
           = Responded 200 (StatsBody st) \<and>
        totalVolume st = Fin (31 / 2) \<and> totalChallengeStaked st = Fin (31 / 2)"
proof -
  have u: "getAllUsersWithWallets (store_env\<lparr>selectChallenges := Returned three_rows\<rparr>)
      = Returned [alice, bob]"
    and c: "selectChallenges (store_env\<lparr>selectChallenges := Returned three_rows\<rparr>)
      = Returned three_rows"
    by (simp_all add: store_env_def)
  have r: "list_all amount_readable three_rows"
    by (simp add: three_rows_def amount_readable_def blank_row_def parse_eval)
  have s: "double_sum (map parseFloat (present_amounts three_rows)) = Fin (31 / 2)"
    by (simp add: three_rows_def present_amounts_def double_sum_def blank_row_def parse_eval)
  from stats_totals [OF u c r, of bare_request] show ?thesis
    unfolding s by blast
qed

section \<open>The wallet login\<close>

text \<open>
  C4. On a body without a wallet address the wallet login answers 400 and calls neither
  the provisioning nor the token service. With a wallet address it first provisions a
  user for that address (and the optional email); if none is returned it answers 500
  and the token service is not called. Otherwise it asks for a token bound to the
  user's id and the wallet address; if none is returned it answers 500. On success it
  answers with \<^verbatim>\<open>success: true\<close>, the token, and the id, email and wallet of the
  provisioned record.
\<close>

theorem wallet_login_steps:
  "(\<not> truthy_str (walletAddress bd) \<longrightarrow>
      wallet_login env (Some bd) = (Responded 400 (ErrorBody (Some ''Missing walletAddress'')), [])) \<and>
   (\<forall>w. walletAddress bd = Some w \<and> w \<noteq> [] \<longrightarrow>
      (getOrCreateSupabaseUser env w (email bd) = Returned None \<longrightarrow>
         wallet_login env (Some bd) =
           (Responded 500 (ErrorBody (Some ''Failed to create user'')),
            [ProvisionCall w (email bd)])) \<and>
      (\<forall>u. getOrCreateSupabaseUser env w (email bd) = Returned (Some u) \<longrightarrow>
         (generateSupabaseToken env (su_id u) w = Returned None
            \<or> generateSupabaseToken env (su_id u) w = Returned (Some []) \<longrightarrow>
            wallet_login env (Some bd) =
              (Responded 500 (ErrorBody (Some ''Failed to generate token'')),
               [ProvisionCall w (email bd), TokenCall (su_id u) w])) \<and>
         (\<forall>tk. generateSupabaseToken env (su_id u) w = Returned (Some tk) \<and> tk \<noteq> [] \<longrightarrow>
            wallet_login env (Some bd) =
              (Responded 200 (LoginBody True tk (su_id u) (su_email u) (su_wallet u)),
               [ProvisionCall w (email bd), TokenCall (su_id u) w]))))"
  by (auto simp: wallet_login_def truthy_str_def str_of_opt_def Let_def split: option.splits)

theorem wallet_login_steps_witness:
  "wallet_login login_env (Some \<lparr> walletAddress = None, email = Some ''a@example.org'' \<rparr>)
     = (Responded 400 (ErrorBody (Some ''Missing walletAddress'')), []) \<and>
   wallet_login login_env (Some \<lparr> walletAddress = Some ''0xDEAD'', email = None \<rparr>)
     = (Responded 500 (ErrorBody (Some ''Failed to create user'')),
        [ProvisionCall ''0xDEAD'' None]) \<and>
   wallet_login login_env (Some \<lparr> walletAddress = Some ''0xB0B'', email = None \<rparr>)
     = (Responded 500 (ErrorBody (Some ''Failed to generate token'')),
        [ProvisionCall ''0xB0B'' None, TokenCall ''sb_2'' ''0xB0B'']) \<and>
   wallet_login login_env
       (Some \<lparr> walletAddress = Some ''0xA11CE'', email = Some ''a@example.org'' \<rparr>)
     = (Responded 200
          (LoginBody True ''jwt:sb_1:0xA11CE'' ''sb_1'' (Some ''a@example.org'') (Some ''0xA11CE'')),
        [ProvisionCall ''0xA11CE'' (Some ''a@example.org''), TokenCall ''sb_1'' ''0xA11CE''])"
  using wallet_login_steps [of "\<lparr> walletAddress = None, email = Some ''a@example.org'' \<rparr>" login_env]
    wallet_login_steps [of "\<lparr> walletAddress = Some ''0xDEAD'', email = None \<rparr>" login_env]
    wallet_login_steps [of "\<lparr> walletAddress = Some ''0xB0B'', email = None \<rparr>" login_env]
    wallet_login_steps [of "\<lparr> walletAddress = Some ''0xA11CE'', email = Some ''a@example.org'' \<rparr>"
      login_env]
  by (simp add: login_env_def truthy_str_def)

section \<open>The bonus badges\<close>

lemma js_pos_truthy: "js_pos n \<Longrightarrow> truthy_jsnum n"
  by (cases n) auto

text \<open>
  C5. The bonus list holds exactly the entries whose conditions hold, in the order
  weak_side, early_bird, streak. The weak-side entry is there iff the end of the bonus
  parses to an instant strictly after now and the bonus side is set; its label is the
  currency symbol followed by the formatted bonus amount when a bonus amount is present
  (a number other than 0 and \<^verbatim>\<open>NaN\<close>), and otherwise the multiplier followed by
  \<^verbatim>\<open>x\<close>. The early-bird entry is there iff the early-bird slots are greater than
  0, with label \<^verbatim>\<open>Early\<close>; the streak entry iff the streak bonus is enabled, with
  label \<^verbatim>\<open>Streak\<close>. When all three conditions hold the list has exactly these 3
  entries.
\<close>

theorem bonus_badges:
  assumes "weak = ((\<exists>s t. c_bonusEndsAt c = Some s \<and> s \<noteq> [] \<and> dateParse env s = Some t
                        \<and> dateNow env < t) \<and> truthy_str (c_bonusSide c))"
    and "early = (\<exists>n. c_earlyBirdSlots c = Some n \<and> js_pos n)"
    and "streak = (c_streakBonusEnabled c = Some True)"
  shows "map b_type (getBonusBadge env c) =
           (if weak then [''weak_side''] else []) @ (if early then [''early_bird''] else []) @
           (if streak then [''streak''] else []) \<and>
         (\<forall>b \<in> set (getBonusBadge env c).
            (b_type b = ''weak_side'' \<longrightarrow>
               (\<forall>a. c_bonusAmount c = Some a \<and> truthy_jsnum a \<longrightarrow>
                  b_label b = getCurrencySymbol env (c_paymentTokenAddress c) @ formatTokenAmount env a) \<and>
               (\<not> truthy_num (c_bonusAmount c) \<longrightarrow>
                  b_label b = str_of_opt (c_bonusMultiplier c) @ ''x'')) \<and>
            (b_type b = ''early_bird'' \<longrightarrow> b_label b = ''Early'') \<and>
            (b_type b = ''streak'' \<longrightarrow> b_label b = ''Streak'')) \<and>
         (weak \<and> early \<and> streak \<longrightarrow>
            map b_type (getBonusBadge env c) = [''weak_side'', ''early_bird'', ''streak''])"
proof -
  have w: "weak = (isBonusActive env c \<and> truthy_str (c_bonusSide c))"
    unfolding assms(1) isBonusActive_def by (auto split: option.splits)
  have e: "early = (\<exists>n. c_earlyBirdSlots c = Some n \<and> truthy_jsnum n \<and> js_pos n)"
    unfolding assms(2) using js_pos_truthy by blast
  have s: "streak = truthy_bool (c_streakBonusEnabled c)"
    unfolding assms(3) truthy_bool_def by (auto split: option.splits)
  have types: "map b_type (getBonusBadge env c) =
           (if weak then [''weak_side''] else []) @ (if early then [''early_bird''] else []) @
           (if streak then [''streak''] else [])"
    unfolding w e s
    by (auto simp: getBonusBadge_def push_weak_side_def push_early_bird_def push_streak_def
        split: option.splits)
  have labels: "\<forall>b \<in> set (getBonusBadge env c).
            (b_type b = ''weak_side'' \<longrightarrow>
               (\<forall>a. c_bonusAmount c = Some a \<and> truthy_jsnum a \<longrightarrow>
                  b_label b = getCurrencySymbol env (c_paymentTokenAddress c) @ formatTokenAmount env a) \<and>
               (\<not> truthy_num (c_bonusAmount c) \<longrightarrow>
                  b_label b = str_of_opt (c_bonusMultiplier c) @ ''x'')) \<and>
            (b_type b = ''early_bird'' \<longrightarrow> b_label b = ''Early'') \<and>
            (b_type b = ''streak'' \<longrightarrow> b_label b = ''Streak'')"
    by (auto simp: getBonusBadge_def push_weak_side_def push_early_bird_def push_streak_def
        truthy_num_def split: option.splits if_splits)
  from types labels show ?thesis by simp
qed

theorem bonus_badges_witness:
  "map b_type (getBonusBadge card_env0 bonus_card) = [''weak_side'', ''early_bird'', ''streak''] \<and>
   map b_label (getBonusBadge card_env0 bonus_card) = [''1.5x'', ''Early'', ''Streak''] \<and>
   map b_label (getBonusBadge card_env0 (bonus_card\<lparr>c_bonusAmount := Some (Fin 500)\<rparr>))
     = [''$500'', ''Early'', ''Streak'']"
proof -
  note spec = bonus_badges [where env = card_env0, OF refl refl refl]
  have t: "map b_type (getBonusBadge card_env0 bonus_card) = [''weak_side'', ''early_bird'', ''streak'']"
    using spec [of bonus_card]
    by (simp add: bonus_card_def p2p_card_def card_env0_def truthy_str_def)
  have t': "map b_type (getBonusBadge card_env0 (bonus_card\<lparr>c_bonusAmount := Some (Fin 500)\<rparr>))
      = [''weak_side'', ''early_bird'', ''streak'']"
    using spec [of "bonus_card\<lparr>c_bonusAmount := Some (Fin 500)\<rparr>"]
    by (simp add: bonus_card_def p2p_card_def card_env0_def truthy_str_def)
  from t obtain b1 b2 b3 where bs: "getBonusBadge card_env0 bonus_card = [b1, b2, b3]"
    and ty: "b_type b1 = ''weak_side''" "b_type b2 = ''early_bird''" "b_type b3 = ''streak''"
    by auto
  from t' obtain d1 d2 d3 where
    ds: "getBonusBadge card_env0 (bonus_card\<lparr>c_bonusAmount := Some (Fin 500)\<rparr>) = [d1, d2, d3]"
    and dy: "b_type d1 = ''weak_side''" "b_type d2 = ''early_bird''" "b_type d3 = ''streak''"
    by auto
  have l: "b_label b1 = ''1.5x''" "b_label b2 = ''Early''" "b_label b3 = ''Streak''"
    using spec [of bonus_card] bs ty
    by (simp_all add: bonus_card_def p2p_card_def card_env0_def truthy_num_def str_of_opt_def)
  have m: "b_label d1 = ''$500''" "b_label d2 = ''Early''" "b_label d3 = ''Streak''"
    using spec [of "bonus_card\<lparr>c_bonusAmount := Some (Fin 500)\<rparr>"] ds dy
    by (simp_all add: bonus_card_def p2p_card_def card_env0_def truthy_num_def str_of_opt_def)
  show ?thesis
    using t bs ds l m by simp
qed

section \<open>The displayed volume\<close>

text \<open>
  C3. The claim gives the volume of a peer-to-peer challenge with a raw stake as
  (stakeAmountWei / 10^decimals) \<times> 2. The card divides BigInts, which drops the
  fraction: a stake of 1500000 units of a 6-decimal token (1.5 tokens) is displayed as
  2, where the claim, and the path without a raw stake (\<^verbatim>\<open>parseFloat(amount) * 2\<close>),
  give 3.
\<close>

theorem displayVolume_truncates:
  "displayVolume (p2p_card\<lparr>c_stakeAmountWei := Some ''1500000''\<rparr>) = Some (Fin 2) \<and>
   Fin (1500000 / 10 ^ 6 * 2) = Fin 3"
  by (simp add: displayVolume_def p2p_card_def truthy_bool_def parse_eval bigint_div_def)

text \<open>
  What the card computes. For an admin-created challenge the volume is
  yesStakeTotal + noStakeTotal (each 0 when missing), whatever the amount is. For a
  peer-to-peer challenge without a raw stake it is the parsed amount (0 when it does not
  parse) times 2. For a peer-to-peer challenge whose raw stake reads as a BigInt
  \<open>w \<ge> 0\<close> it is the integer quotient of \<open>w\<close> by 10^decimals, times 2 (as a double), with 18
  decimals for the all-zero address and 6 otherwise.
\<close>

theorem displayVolume_cases:
  "(truthy_bool (c_adminCreated c) \<longrightarrow>
      displayVolume c = Some (js_add (opt_or_zero (c_yesStakeTotal c)) (opt_or_zero (c_noStakeTotal c)))) \<and>
   (\<not> truthy_bool (c_adminCreated c) \<and> \<not> truthy_str (c_stakeAmountWei c) \<longrightarrow>
      displayVolume c = Some (js_mul (or_zero (parseFloat (c_amount c))) (Fin 2))) \<and>
   (\<forall>wei w. \<not> truthy_bool (c_adminCreated c) \<and> c_stakeAmountWei c = Some wei \<and> wei \<noteq> []
        \<and> BigInt wei = Some w \<and> 0 \<le> w \<longrightarrow>
      displayVolume c =
        Some (round_double (of_int
          (w div 10 ^ (if c_paymentTokenAddress c = Some zero_address then 18 else 6) * 2))))"
  by (auto simp: displayVolume_def truthy_str_def zero_address_def Let_def bigint_div_nonneg
      split: option.splits)

theorem displayVolume_cases_witness:
  "displayVolume (p2p_card\<lparr>c_adminCreated := Some True, c_yesStakeTotal := Some (Fin 120),
      c_noStakeTotal := Some (Fin 80)\<rparr>) = Some (Fin 200) \<and>
   displayVolume p2p_card = Some (Fin 100) \<and>
   displayVolume (p2p_card\<lparr>c_stakeAmountWei := Some ''2000000''\<rparr>) = Some (Fin 4)"
  using displayVolume_cases [of "p2p_card\<lparr>c_adminCreated := Some True,
      c_yesStakeTotal := Some (Fin 120), c_noStakeTotal := Some (Fin 80)\<rparr>"]
    displayVolume_cases [of p2p_card]
    displayVolume_cases [of "p2p_card\<lparr>c_stakeAmountWei := Some ''2000000''\<rparr>"]
  by (simp add: p2p_card_def truthy_bool_def truthy_str_def opt_or_zero_def or_zero_def
      zero_address_def parse_eval)

section \<open>The status badge\<close>




section \<open>The paginated lists\<close>

text \<open>
  C8. The claim as stated fails for \<^verbatim>\<open>limit=0\<close>: the text parses as the integer
  0, the slice [offset, offset + 0) is empty, but \<^verbatim>\<open>parseInt(...) || 100\<close> takes
  the default for 0 as well and the endpoint returns the whole five-item collection.
\<close>

theorem list_limit_zero_counterexample:
  "parseInt (Some ''0'') = Some 0 \<and>
   users_handler (store_env\<lparr>getAllUsersWithWallets := Returned five_users\<rparr>)
      (bare_request\<lparr>query_limit := Some ''0''\<rparr>)
     = Responded 200 (UsersBody (map (user_view (Some 0)) five_users)) \<and>
   map (user_view (Some 0)) (take 0 (drop 0 five_users)) = []"
  by (simp add: users_handler_def parse_eval int_or_def slice_def store_env_def bare_request_def
      five_users_def)

text \<open>
  C8, amended. For the list-users and list-challenges endpoints, limit is 100 when the
  query parameter is absent, does not parse as an integer, or parses to 0, and offset is
  0 when it is absent or does not parse. For an offset that is not negative and a limit
  that is positive, the answer is exactly the slice [offset, offset + limit) of the full
  collection in its original order, mapped to the admin view. In particular limit=2,
  offset=1 over a five-item collection returns the items at positions 1 and 2.
\<close>

theorem list_pagination:
  assumes "limit = (case parseInt (query_limit req) of
                      None \<Rightarrow> 100 | Some n \<Rightarrow> if n = 0 then 100 else n)"
    and "offset = (case parseInt (query_offset req) of None \<Rightarrow> 0 | Some n \<Rightarrow> n)"
    and "0 \<le> offset" and "0 < limit"
  shows "(\<forall>allUsers. getAllUsersWithWallets env = Returned allUsers \<longrightarrow>
            users_handler env req =
              Responded 200
                (UsersBody (map (user_view (Some 0)) (take (nat limit) (drop (nat offset) allUsers))))) \<and>
         (\<forall>allChallenges. selectChallenges env = Returned allChallenges \<longrightarrow>
            challenges_handler env req =
              Responded 200
                (ChallengesBody
                   (map (challenge_view env) (take (nat limit) (drop (nat offset) allChallenges)))))"
proof -
  have l: "int_or (parseInt (query_limit req)) 100 = limit"
    unfolding assms(1) by (simp add: int_or_def split: option.splits)
  have off: "int_or (parseInt (query_offset req)) 0 = offset"
    unfolding assms(2) by (simp add: int_or_def split: option.splits)
  have s: "slice offset (offset + limit) xs = take (nat limit) (drop (nat offset) xs)" for xs :: "'a list"
    using assms(3,4) by (intro slice_take_drop) simp_all
  show ?thesis
    by (simp add: users_handler_def challenges_handler_def l off s)
qed

theorem list_pagination_witness:
  "users_handler (store_env\<lparr>getAllUsersWithWallets := Returned five_users\<rparr>)
      (bare_request\<lparr>query_limit := Some ''2'', query_offset := Some ''1''\<rparr>)
     = Responded 200 (UsersBody [user_view (Some 0) (five_users ! 1), user_view (Some 0) (five_users ! 2)]) \<and>
   users_handler (store_env\<lparr>getAllUsersWithWallets := Returned five_users\<rparr>) bare_request
     = Responded 200 (UsersBody (map (user_view (Some 0)) five_users))"
proof -
  have p: "parseInt (Some ''2'') = Some 2" "parseInt (Some ''1'') = Some 1" "parseInt None = None"
    by (simp_all add: parse_eval)
  show ?thesis
    using list_pagination [OF refl refl, of "bare_request\<lparr>query_limit := Some ''2'', query_offset := Some ''1''\<rparr>"
        "store_env\<lparr>getAllUsersWithWallets := Returned five_users\<rparr>"]
      list_pagination [OF refl refl, of bare_request
        "store_env\<lparr>getAllUsersWithWallets := Returned five_users\<rparr>"]
    by (simp add: p bare_request_def store_env_def five_users_def)
qed

section \<open>Accepting an open challenge\<close>

text \<open>
  C9. The claim as stated fails where it says that a failed server call shows the
  contention message: the toast shows the message of the error, and the contention
  message only when that message is empty. Here the signature succeeds, the server
  call is rejected with a message, and the toast shows that message.
\<close>

theorem accept_open_server_message_counterexample:
  "blockchainAcceptP2PChallenge race_env (c_id p2p_card)
     = Returned \<lparr> transactionHash = Some ''0xfeed'' \<rparr> \<and>
   map t_description (toasts (fst (acceptOpenChallengeMutation race_env p2p_card modal_open)))
     = [''409: Challenge already accepted''] \<and>
   ''409: Challenge already accepted'' \<noteq> contention_message"
  by (simp add: acceptOpenChallengeMutation_def accept_open_fn_def accept_open_onError_def
      race_env_def card_env0_def modal_open_def contention_message_def)

text \<open>
  C9, amended. When the signing throws, the attempt ends with one destructive toast, no
  server call is made, and for a thrown object the toast reads
  \<^verbatim>\<open>Blockchain signing failed:\<close> followed by the object's message (or
  \<^verbatim>\<open>Unknown error\<close>). When the signature succeeds and the server call fails, the
  toast shows the error's message, or the contention message when that message is empty;
  no success toast is shown, the challenge list is not invalidated, and the modal stays
  as it was. Only when both steps succeed is the modal closed, the success toast shown
  and the challenge list invalidated.
\<close>

theorem accept_open_flow:
  assumes "url = ''/api/challenges/'' @ string_of_int (c_id c) @ ''/accept-open''"
    and "res = acceptOpenChallengeMutation env c st"
  shows "(\<forall>e. blockchainAcceptP2PChallenge env (c_id c) = Threw e \<longrightarrow>
            snd res = [SignCall (c_id c)] \<and>
            showAcceptModal (fst res) = showAcceptModal st \<and>
            invalidated (fst res) = invalidated st \<and>
            (\<exists>d. toasts (fst res) = toasts st @
                    [\<lparr> t_title = error_title, t_description = d, t_variant = Some ''destructive'' \<rparr>] \<and>
                 (\<forall>m. e = Thrown m \<longrightarrow>
                    d = ''Blockchain signing failed: '' @ str_or m ''Unknown error''))) \<and>
         (\<forall>tx msg. blockchainAcceptP2PChallenge env (c_id c) = Returned tx \<and>
               apiRequest env ''POST'' url (transactionHash tx) = ApiError msg \<longrightarrow>
            snd res = [SignCall (c_id c), ApiCall ''POST'' url (transactionHash tx)] \<and>
            showAcceptModal (fst res) = showAcceptModal st \<and>
            invalidated (fst res) = invalidated st \<and>
            toasts (fst res) = toasts st @
              [\<lparr> t_title = error_title,
                 t_description = (if msg = [] then contention_message else msg),
                 t_variant = Some ''destructive'' \<rparr>]) \<and>
         (\<forall>tx. blockchainAcceptP2PChallenge env (c_id c) = Returned tx \<and>
               apiRequest env ''POST'' url (transactionHash tx) = ApiOk \<longrightarrow>
            snd res = [SignCall (c_id c), ApiCall ''POST'' url (transactionHash tx)] \<and>
            showAcceptModal (fst res) = False \<and>
            invalidated (fst res) = invalidated st @ [''/api/challenges''] \<and>
            toasts (fst res) = toasts st @
              [\<lparr> t_title = accepted_title,
                 t_description = ''You're in! Both stakes are now locked on-chain.'',
                 t_variant = None \<rparr>])"
  unfolding assms
  by (auto simp: acceptOpenChallengeMutation_def accept_open_fn_def accept_open_onError_def
      accept_open_onSuccess_def Let_def split: thrown.splits)

theorem accept_open_flow_witness:
  "snd (acceptOpenChallengeMutation rejecting_env p2p_card modal_open) = [SignCall 42] \<and>
   showAcceptModal (fst (acceptOpenChallengeMutation rejecting_env p2p_card modal_open)) \<and>
   map t_description (toasts (fst (acceptOpenChallengeMutation rejecting_env p2p_card modal_open)))
     = [''Blockchain signing failed: User rejected the request''] \<and>
   showAcceptModal (fst (acceptOpenChallengeMutation
      (card_env0\<lparr>apiRequest := (\<lambda>m u h. ApiError [])\<rparr>) p2p_card modal_open)) \<and>
   map t_description (toasts (fst (acceptOpenChallengeMutation
      (card_env0\<lparr>apiRequest := (\<lambda>m u h. ApiError [])\<rparr>) p2p_card modal_open)))
     = [contention_message] \<and>
   \<not> showAcceptModal (fst (acceptOpenChallengeMutation card_env0 p2p_card modal_open)) \<and>
   snd (acceptOpenChallengeMutation card_env0 p2p_card modal_open)
     = [SignCall 42, ApiCall ''POST'' ''/api/challenges/42/accept-open'' (Some ''0xfeed'')]"
proof -
  have u: "string_of_int 42 = ''42''" "c_id p2p_card = 42"
    by (simp_all add: p2p_card_def string_of_int_def string_of_nat.simps digit_char_def)
  show ?thesis
    using accept_open_flow [OF refl refl, of rejecting_env p2p_card modal_open]
      accept_open_flow [OF refl refl, of "card_env0\<lparr>apiRequest := (\<lambda>m u h. ApiError [])\<rparr>"
        p2p_card modal_open]
      accept_open_flow [OF refl refl, of card_env0 p2p_card modal_open]
    by (simp add: u rejecting_env_def card_env0_def modal_open_def str_or_def)
qed

end
